theory Spec2Isabelle
  imports Complex_Main
begin

section \<open>Python values shared by both Lambda functions\<close>

text \<open>
  Exceptions are values. The type covers the instances of Python's \<open>Exception\<close> that the
  two programs can meet: failures of the AWS client library, and the failures of Python
  itself on a missing key, a missing attribute and an unassigned local variable.
  \<open>NoSuchBucket\<close> and \<open>ParameterNotFound\<close> are exception classes of the S3 and the SSM
  client. \<open>NoSuchLifecycleConfiguration\<close> stands for the \<open>ClientError\<close> with this error code,
  the answer of the service for a bucket without lifecycle configuration: its class is
  \<open>ClientError\<close>, and the S3 client has no exception class of this name.
\<close>

datatype exn =
    ClientError string
  | NoSuchLifecycleConfiguration string
  | NoSuchBucket string
  | ParameterNotFound string
  | KeyError string
  | AttributeError string
  | UnboundLocalError string

text \<open>\<open>str(e)\<close>: the message; a \<open>KeyError\<close> prints the repr of its key.\<close>

fun str_exn :: "exn \<Rightarrow> string" where
  "str_exn (ClientError m) = m"
| "str_exn (NoSuchLifecycleConfiguration m) = m"
| "str_exn (NoSuchBucket m) = m"
| "str_exn (ParameterNotFound m) = m"
| "str_exn (KeyError k) = [CHR 0x27] @ k @ [CHR 0x27]"
| "str_exn (AttributeError m) = m"
| "str_exn (UnboundLocalError m) = m"

text \<open>\<open>str(n)\<close> of a Python int, as interpolated by the f-strings.\<close>

definition digit :: "nat \<Rightarrow> char" where
  "digit d = ''0123456789'' ! d"

function str_nat :: "nat \<Rightarrow> string" where
  "str_nat n = (if n < 10 then [digit n] else str_nat (n div 10) @ [digit (n mod 10)])"
  by pat_completeness auto
termination
  by (relation "measure id") auto

declare str_nat.simps [simp del]

definition str_int :: "int \<Rightarrow> string" where
  "str_int i = (if i < 0 then CHR ''-'' # str_nat (nat (- i)) else str_nat (nat i))"

text \<open>
  The format \<open>{x:.1f}\<close>: one decimal, the exact value rounded to the nearest tenth, ties to
  the even digit, with the sign of \<open>x\<close>; \<open>x\<close> is the exact value of the float.
\<close>

definition round_half_even :: "rat \<Rightarrow> int" where
  "round_half_even y =
     (let f = \<lfloor>y\<rfloor>; d = y - of_int f
      in if d < 1 / 2 then f else if 1 / 2 < d then f + 1 else if even f then f else f + 1)"

definition fmt1 :: "rat \<Rightarrow> string" where
  "fmt1 x =
     (let t = nat (round_half_even (\<bar>x\<bar> * 10))
      in (if x < 0 then ''-'' else '''') @ str_nat (t div 10) @ ''.'' @ [digit (t mod 10)])"

text \<open>\<open>', '.join(xs)\<close>\<close>

fun join :: "string \<Rightarrow> string list \<Rightarrow> string" where
  "join sep [] = ''''"
| "join sep [x] = x"
| "join sep (x # y # ys) = x @ sep @ join sep (y # ys)"

text \<open>\<open>s.startswith(p)\<close>\<close>

definition startswith :: "string \<Rightarrow> string \<Rightarrow> bool" where
  "startswith s p = (take (length p) s = p)"

text \<open>The document handed to \<open>json.dumps\<close>: dictionaries keep their insertion order.\<close>

datatype json =
    JNull
  | JBool bool
  | JInt int
  | JFloat rat
  | JStr string
  | JList "json list"
  | JObj "(string \<times> json) list"

text \<open>The response of a handler: \<open>{'statusCode': ..., 'body': json.dumps(...)}\<close>.\<close>

record response =
  statusCode :: nat
  body :: json

text \<open>
  The execution context. The handlers read \<open>context.environment\<close>, a dictionary of
  strings, and the workspace manager also reads \<open>context.function_name\<close>. Reading an
  attribute that the context object does not have raises: \<open>Inl e\<close> is that exception.
\<close>

record lambda_context =
  context_environment :: "exn + (string \<rightharpoonup> string)"
  context_function_name :: "exn + string"

section \<open>The resource inventory (boto3 responses)\<close>

record ec2_instance =
  InstanceId :: string
  InstanceType :: string
  InstanceTags :: "(string \<times> string) list option"

record reservation =
  Instances :: "ec2_instance list"

record asg_instance =
  HealthStatus :: string

record auto_scaling_group =
  AutoScalingGroupName :: string
  AsgTags :: "(string \<times> string) list option"
  DesiredCapacity :: int
  MinSize :: int
  MaxSize :: int
  AsgInstances :: "asg_instance list"
  AvailabilityZones :: "string list"
  LaunchTemplateName :: "string option"

text \<open>Times are microseconds since the epoch, the resolution of \<open>datetime\<close>.\<close>

record s3_object =
  Size :: int
  LastModified :: int

text \<open>
  The AWS account as the cost optimizer sees it: every client call either raises or
  returns its response. \<open>list_objects_v2\<close> returns the \<open>Contents\<close> of the response, \<open>None\<close>
  when the key is absent; \<open>get_metric_statistics\<close> returns the \<open>Average\<close> of each datapoint
  of the CPU metric of one instance, a float, given by its exact value. The clock is
  read through \<open>utcnow_isoformat\<close>, \<open>utcnow_hour\<close> and, for the \<open>k\<close>-th object of the storage
  loop, \<open>now k\<close>.

  The record also carries what the run takes from the libraries underneath.
  \<open>s3_exceptions_getattr name\<close> is the text of the \<open>AttributeError\<close> that the client library
  raises for \<open>s3.exceptions.name\<close> when the S3 client has no exception class of that name
  (the text names the object and lists the classes it has). \<open>float_sum\<close> and \<open>float_div\<close>
  are the interpreter's \<open>sum\<close> over floats and its true division \<open>/\<close>: each gives a
  float, by its exact value, and rounds as the interpreter does.
\<close>

record aws =
  boto3_client :: "string \<Rightarrow> exn option"
  describe_instances :: "(string \<times> string list) list \<Rightarrow> exn + reservation list"
  get_metric_statistics :: "string \<Rightarrow> exn + rat list"
  describe_auto_scaling_groups :: "exn + auto_scaling_group list"
  describe_scheduled_actions :: "string \<Rightarrow> exn + string list"
  get_bucket_lifecycle_configuration :: "string \<Rightarrow> exn + string list"
  list_objects_v2 :: "string \<Rightarrow> nat \<Rightarrow> exn + s3_object list option"
  utcnow_isoformat :: string
  utcnow_hour :: nat
  now :: "nat \<Rightarrow> int"
  s3_exceptions_getattr :: "string \<Rightarrow> string"
  float_sum :: "rat list \<Rightarrow> rat"
  float_div :: "rat \<Rightarrow> rat \<Rightarrow> rat"

section \<open>The cost optimizer\<close>

record finding_set =
  category :: string
  findings :: "string list"
  recommendations :: "string list"
  potential_savings :: int

definition new_optimization :: "string \<Rightarrow> finding_set" where
  "new_optimization c = \<lparr>category = c, findings = [], recommendations = [], potential_savings = 0\<rparr>"

definition add_finding :: "string \<Rightarrow> finding_set \<Rightarrow> finding_set" where
  "add_finding s opt = opt\<lparr>findings := findings opt @ [s]\<rparr>"

definition add_recommendation :: "string \<Rightarrow> finding_set \<Rightarrow> finding_set" where
  "add_recommendation s opt = opt\<lparr>recommendations := recommendations opt @ [s]\<rparr>"

definition add_savings :: "int \<Rightarrow> finding_set \<Rightarrow> finding_set" where
  "add_savings n opt = opt\<lparr>potential_savings := potential_savings opt + n\<rparr>"

subsection \<open>\<open>identify_cost_anomalies\<close>\<close>

definition identify_cost_anomalies :: "aws \<Rightarrow> string \<Rightarrow> string \<Rightarrow> finding_set" where
  "identify_cost_anomalies cloudwatch project_name environment =
     (let optimization = new_optimization ''Cost Anomaly Detection'';
          optimization = add_finding ''Simulated cost analysis complete'' optimization;
          optimization = add_recommendation
            ''Review AWS Cost Explorer for detailed cost breakdown'' optimization;
          optimization = add_recommendation
            ''Set up AWS Budgets for proactive cost monitoring'' optimization;
          optimization = add_recommendation
            ''Consider Reserved Instances for predictable workloads'' optimization;
          current_time = utcnow_hour cloudwatch
      in if current_time < 8 \<or> current_time > 18
         then add_savings 25
                (add_finding ''Running outside business hours - opportunity for shutdown''
                   optimization)
         else optimization)"

subsection \<open>\<open>check_instance_utilization\<close>\<close>

text \<open>
  The body of the inner loop once the metric call has returned \<open>Datapoints\<close>. The state of
  a loop that a client call can interrupt is \<open>Inr optimization\<close>, or \<open>Inl (e, optimization)\<close>
  when \<open>e\<close> was raised: the dictionary keeps what was appended before.
\<close>

text \<open>\<open>sum(dp['Average'] for dp in datapoints) / len(datapoints)\<close>, asked for a non-empty list only\<close>

definition average :: "aws \<Rightarrow> rat list \<Rightarrow> rat" where
  "average cloudwatch datapoints =
     float_div cloudwatch (float_sum cloudwatch datapoints) (of_nat (length datapoints))"

definition utilization_of_instance ::
  "aws \<Rightarrow> ec2_instance \<Rightarrow> rat list \<Rightarrow> finding_set \<Rightarrow> finding_set" where
  "utilization_of_instance cloudwatch inst datapoints optimization =
     (let instance_id = InstanceId inst; instance_type = InstanceType inst
      in if datapoints \<noteq> [] then
           (let avg_cpu = average cloudwatch datapoints
            in if avg_cpu < 10 then
                 (let optimization = add_finding
                        (''Instance '' @ instance_id @ '' ('' @ instance_type
                           @ '') has low CPU utilization: '' @ fmt1 avg_cpu @ ''%'') optimization;
                      optimization = add_recommendation
                        (''Consider downsizing '' @ instance_id @ '' or using Spot instances'')
                        optimization
                  in if startswith instance_type ''t3.'' then add_savings 20 optimization
                     else optimization)
               else if avg_cpu > 80 then
                 add_recommendation
                   (''Consider upsizing '' @ instance_id @ '' or adding more instances'')
                   (add_finding
                      (''Instance '' @ instance_id @ '' ('' @ instance_type
                         @ '') has high CPU utilization: '' @ fmt1 avg_cpu @ ''%'') optimization)
               else optimization)
         else optimization)"

fun utilization_instances ::
  "aws \<Rightarrow> ec2_instance list \<Rightarrow> finding_set \<Rightarrow> exn \<times> finding_set + finding_set" where
  "utilization_instances cloudwatch [] optimization = Inr optimization"
| "utilization_instances cloudwatch (inst # rest) optimization =
     (case get_metric_statistics cloudwatch (InstanceId inst) of
        Inl e \<Rightarrow> Inl (e, optimization)
      | Inr datapoints \<Rightarrow>
          utilization_instances cloudwatch rest
            (utilization_of_instance cloudwatch inst datapoints optimization))"

fun utilization_reservations ::
  "aws \<Rightarrow> reservation list \<Rightarrow> finding_set \<Rightarrow> exn \<times> finding_set + finding_set" where
  "utilization_reservations cloudwatch [] optimization = Inr optimization"
| "utilization_reservations cloudwatch (r # rest) optimization =
     (case utilization_instances cloudwatch (Instances r) optimization of
        Inl x \<Rightarrow> Inl x
      | Inr optimization \<Rightarrow> utilization_reservations cloudwatch rest optimization)"

definition utilization_filters :: "string \<Rightarrow> string \<Rightarrow> (string \<times> string list) list" where
  "utilization_filters project_name environment =
     [(''tag:Project'', [project_name]), (''tag:Environment'', [environment]),
      (''instance-state-name'', [''running''])]"

definition check_instance_utilization_try ::
  "aws \<Rightarrow> aws \<Rightarrow> string \<Rightarrow> string \<Rightarrow> finding_set \<Rightarrow> exn \<times> finding_set + finding_set" where
  "check_instance_utilization_try ec2 cloudwatch project_name environment optimization =
     (case describe_instances ec2 (utilization_filters project_name environment) of
        Inl e \<Rightarrow> Inl (e, optimization)
      | Inr response \<Rightarrow>
          (case utilization_reservations cloudwatch response optimization of
             Inl x \<Rightarrow> Inl x
           | Inr optimization \<Rightarrow>
               Inr (if findings optimization = []
                    then add_finding ''All instances have appropriate utilization levels''
                           optimization
                    else optimization)))"

definition check_instance_utilization :: "aws \<Rightarrow> aws \<Rightarrow> string \<Rightarrow> string \<Rightarrow> finding_set" where
  "check_instance_utilization ec2 cloudwatch project_name environment =
     (case check_instance_utilization_try ec2 cloudwatch project_name environment
             (new_optimization ''EC2 Instance Utilization'') of
        Inl (e, optimization) \<Rightarrow>
          add_finding (''Error checking instance utilization: '' @ str_exn e) optimization
      | Inr optimization \<Rightarrow> optimization)"

subsection \<open>\<open>check_asg_efficiency\<close>\<close>

text \<open>\<open>next((tag for tag in tags if tag['Key'] == key), None)\<close>\<close>

definition first_tag :: "string \<Rightarrow> (string \<times> string) list \<Rightarrow> (string \<times> string) option" where
  "first_tag key tags = List.find (\<lambda>tag. fst tag = key) tags"

text \<open>\<open>d.get('Tags', [])\<close>\<close>

definition tags_or_empty :: "(string \<times> string) list option \<Rightarrow> (string \<times> string) list" where
  "tags_or_empty t = (case t of None \<Rightarrow> [] | Some tags \<Rightarrow> tags)"

definition efficiency_of_asg ::
  "aws \<Rightarrow> string \<Rightarrow> auto_scaling_group \<Rightarrow> finding_set \<Rightarrow> exn \<times> finding_set + finding_set" where
  "efficiency_of_asg autoscaling project_name asg optimization =
     (let asg_name = AutoScalingGroupName asg;
          project_tag = first_tag ''Project'' (tags_or_empty (AsgTags asg))
      in if (case project_tag of None \<Rightarrow> True | Some tag \<Rightarrow> snd tag \<noteq> project_name)
         then Inr optimization
         else
           (let desired = DesiredCapacity asg; min_size = MinSize asg; max_size = MaxSize asg;
                optimization = add_finding
                  (''ASG '' @ asg_name @ '': Desired='' @ str_int desired @ '', Min=''
                     @ str_int min_size @ '', Max='' @ str_int max_size) optimization;
                optimization =
                  (if desired = max_size \<and> max_size > 2
                   then add_recommendation
                          (''ASG '' @ asg_name @ '' might be oversized - review max capacity'')
                          optimization
                   else optimization)
            in case describe_scheduled_actions autoscaling asg_name of
                 Inl e \<Rightarrow> Inl (e, optimization)
               | Inr scheduled_actions \<Rightarrow>
                   Inr (if scheduled_actions = []
                        then add_savings 50
                               (add_recommendation
                                  (''Consider adding scheduled scaling to ASG '' @ asg_name
                                     @ '' for cost savings'') optimization)
                        else add_finding
                               (''ASG '' @ asg_name @ '' has scheduled scaling configured'')
                               optimization)))"

fun efficiency_asgs ::
  "aws \<Rightarrow> string \<Rightarrow> auto_scaling_group list \<Rightarrow> finding_set \<Rightarrow> exn \<times> finding_set + finding_set" where
  "efficiency_asgs autoscaling project_name [] optimization = Inr optimization"
| "efficiency_asgs autoscaling project_name (asg # rest) optimization =
     (case efficiency_of_asg autoscaling project_name asg optimization of
        Inl x \<Rightarrow> Inl x
      | Inr optimization \<Rightarrow> efficiency_asgs autoscaling project_name rest optimization)"

definition check_asg_efficiency_try ::
  "aws \<Rightarrow> string \<Rightarrow> finding_set \<Rightarrow> exn \<times> finding_set + finding_set" where
  "check_asg_efficiency_try autoscaling project_name optimization =
     (case describe_auto_scaling_groups autoscaling of
        Inl e \<Rightarrow> Inl (e, optimization)
      | Inr response \<Rightarrow> efficiency_asgs autoscaling project_name response optimization)"

definition check_asg_efficiency :: "aws \<Rightarrow> aws \<Rightarrow> string \<Rightarrow> string \<Rightarrow> finding_set" where
  "check_asg_efficiency autoscaling cloudwatch project_name environment =
     (case check_asg_efficiency_try autoscaling project_name
             (new_optimization ''Auto Scaling Group Efficiency'') of
        Inl (e, optimization) \<Rightarrow>
          add_finding (''Error checking ASG efficiency: '' @ str_exn e) optimization
      | Inr optimization \<Rightarrow> optimization)"

subsection \<open>\<open>optimize_s3_storage\<close>\<close>

text \<open>
  \<open>s3.exceptions.name\<close>: the exception class of that name, as the test whether an exception
  is an instance of it. The S3 client has a class for each error that the model of the
  service declares; of the two names the programs look up, \<open>NoSuchBucket\<close> is one of them
  and \<open>NoSuchLifecycleConfiguration\<close> is not: for it the lookup raises \<open>AttributeError\<close>.
\<close>

definition s3_exceptions :: "aws \<Rightarrow> string \<Rightarrow> exn + (exn \<Rightarrow> bool)" where
  "s3_exceptions s3 name =
     (if name = ''NoSuchBucket''
      then Inr (\<lambda>e. case e of NoSuchBucket m \<Rightarrow> True | _ \<Rightarrow> False)
      else Inl (AttributeError (s3_exceptions_getattr s3 name)))"

text \<open>
  The inner \<open>try\<close>: the rule count of the lifecycle configuration. When the call raises,
  the clause \<open>except s3.exceptions.NoSuchLifecycleConfiguration\<close> is evaluated: an exception
  raised by the lookup of the class replaces the one of the call and leaves the inner
  \<open>try\<close>; otherwise an instance of the class gives the recommendation and its savings, and
  any other exception leaves the inner \<open>try\<close>.
\<close>

definition lifecycle_configuration ::
  "aws \<Rightarrow> string \<Rightarrow> finding_set \<Rightarrow> exn \<times> finding_set + finding_set" where
  "lifecycle_configuration s3 bucket_name optimization =
     (case get_bucket_lifecycle_configuration s3 bucket_name of
        Inr rules \<Rightarrow>
          Inr (add_finding
                 (''Bucket '' @ bucket_name @ '' has '' @ str_nat (length rules)
                    @ '' lifecycle rules'') optimization)
      | Inl e \<Rightarrow>
          (case s3_exceptions s3 ''NoSuchLifecycleConfiguration'' of
             Inl a \<Rightarrow> Inl (a, optimization)
           | Inr is_instance \<Rightarrow>
               if is_instance e
               then Inr (add_savings 30
                           (add_recommendation (''Add lifecycle policies to bucket '' @ bucket_name)
                              optimization))
               else Inl (e, optimization)))"

text \<open>\<open>(datetime.now(tz) - obj['LastModified']).days\<close>: whole days, rounded down.\<close>

definition age_days :: "int \<Rightarrow> s3_object \<Rightarrow> int" where
  "age_days t obj = (t - LastModified obj) div 86400000000"

text \<open>The loop over \<open>response['Contents']\<close>; the clock is read once for each object.\<close>

fun count_old_objects :: "(nat \<Rightarrow> int) \<Rightarrow> nat \<Rightarrow> s3_object list \<Rightarrow> int \<Rightarrow> int" where
  "count_old_objects clock k [] old_objects = old_objects"
| "count_old_objects clock k (obj # rest) old_objects =
     count_old_objects clock (Suc k) rest
       (if age_days (clock k) obj > 30 then old_objects + 1 else old_objects)"

definition storage_usage :: "aws \<Rightarrow> s3_object list \<Rightarrow> finding_set \<Rightarrow> finding_set" where
  "storage_usage s3 contents optimization =
     (let total_objects = length contents;
          total_size = sum_list (map Size contents);
          optimization = add_finding
            (''Bucket contains '' @ str_nat total_objects @ '' objects, ''
               @ fmt1 (float_div s3 (of_int total_size) (1024 * 1024)) @ '' MB'') optimization;
          old_objects = count_old_objects (now s3) 0 contents 0
      in if old_objects > 0
         then add_recommendation
                (str_int old_objects
                   @ '' objects are older than 30 days - verify lifecycle transitions'')
                optimization
         else optimization)"

definition optimize_s3_storage_try ::
  "aws \<Rightarrow> string \<Rightarrow> finding_set \<Rightarrow> exn \<times> finding_set + finding_set" where
  "optimize_s3_storage_try s3 bucket_name optimization =
     (case lifecycle_configuration s3 bucket_name optimization of
        Inl x \<Rightarrow> Inl x
      | Inr optimization \<Rightarrow>
          (case list_objects_v2 s3 bucket_name 1000 of
             Inl e \<Rightarrow> Inl (e, optimization)
           | Inr None \<Rightarrow> Inr optimization
           | Inr (Some contents) \<Rightarrow> Inr (storage_usage s3 contents optimization)))"

definition optimize_s3_storage :: "aws \<Rightarrow> string \<Rightarrow> finding_set" where
  "optimize_s3_storage s3 bucket_name =
     (case optimize_s3_storage_try s3 bucket_name (new_optimization ''S3 Storage Optimization'') of
        Inl (e, optimization) \<Rightarrow>
          add_finding (''Error analyzing S3 storage: '' @ str_exn e) optimization
      | Inr optimization \<Rightarrow> optimization)"

subsection \<open>\<open>check_tagging_compliance\<close>\<close>

definition required_tags :: "string list" where
  "required_tags = [''Project'', ''Environment'', ''CostCenter'', ''Owner'']"

definition untagged_of_instance :: "ec2_instance \<Rightarrow> string list" where
  "untagged_of_instance inst =
     (let instance_id = InstanceId inst;
          tags = tags_or_empty (InstanceTags inst);
          missing_tags = filter (\<lambda>tag. tag \<notin> set (map fst tags)) required_tags
      in if missing_tags \<noteq> []
         then [''Instance '' @ instance_id @ '' missing tags: '' @ join '', '' missing_tags]
         else [])"

definition untagged_of_reservations :: "reservation list \<Rightarrow> string list" where
  "untagged_of_reservations response =
     concat (map (\<lambda>r. concat (map untagged_of_instance (Instances r))) response)"

definition check_tagging_compliance_try ::
  "aws \<Rightarrow> finding_set \<Rightarrow> exn \<times> finding_set + finding_set" where
  "check_tagging_compliance_try ec2 optimization =
     (case describe_instances ec2 [] of
        Inl e \<Rightarrow> Inl (e, optimization)
      | Inr response \<Rightarrow>
          (let untagged_resources = untagged_of_reservations response
           in Inr (if untagged_resources \<noteq> []
                   then add_recommendation ''Apply missing cost allocation tags to resources''
                          (optimization\<lparr>findings := findings optimization @ untagged_resources\<rparr>)
                   else add_finding ''All resources have proper cost allocation tags''
                          optimization)))"

definition check_tagging_compliance :: "aws \<Rightarrow> aws \<Rightarrow> string \<Rightarrow> string \<Rightarrow> finding_set" where
  "check_tagging_compliance ec2 s3 project_name environment =
     (case check_tagging_compliance_try ec2 (new_optimization ''Tagging Compliance'') of
        Inl (e, optimization) \<Rightarrow>
          add_finding (''Error checking tagging compliance: '' @ str_exn e) optimization
      | Inr optimization \<Rightarrow> optimization)"

subsection \<open>\<open>handler\<close> of the cost optimizer\<close>

record report =
  timestamp :: string
  project :: string
  report_environment :: string
  optimizations :: "finding_set list"

text \<open>\<open>d[k]\<close> on a dictionary of strings\<close>

definition subscript :: "(string \<rightharpoonup> string) \<Rightarrow> string \<Rightarrow> exn + string" where
  "subscript d k = (case d k of None \<Rightarrow> Inl (KeyError k) | Some v \<Rightarrow> Inr v)"

text \<open>The four \<open>boto3.client(...)\<close> calls, in order; the first that raises ends the list.\<close>

fun clients :: "'a aws_scheme \<Rightarrow> string list \<Rightarrow> exn option" where
  "clients a [] = None"
| "clients a (n # ns) = (case boto3_client a n of Some e \<Rightarrow> Some e | None \<Rightarrow> clients a ns)"

definition cost_optimizer_try :: "aws \<Rightarrow> lambda_context \<Rightarrow> exn + report" where
  "cost_optimizer_try a context =
     (case context_environment context of
        Inl e \<Rightarrow> Inl e
      | Inr env \<Rightarrow>
     (case subscript env ''PROJECT_NAME'' of
        Inl e \<Rightarrow> Inl e
      | Inr project_name \<Rightarrow>
     (case subscript env ''ENVIRONMENT'' of
        Inl e \<Rightarrow> Inl e
      | Inr environment \<Rightarrow>
     (case subscript env ''BUCKET_NAME'' of
        Inl e \<Rightarrow> Inl e
      | Inr bucket_name \<Rightarrow>
     (case clients a [''ec2'', ''cloudwatch'', ''autoscaling'', ''s3''] of
        Some e \<Rightarrow> Inl e
      | None \<Rightarrow>
          (let optimization_results =
                 \<lparr>timestamp = utcnow_isoformat a, project = project_name,
                  report_environment = environment, optimizations = []\<rparr>;
               instance_optimization = check_instance_utilization a a project_name environment;
               optimization_results = optimization_results
                 \<lparr>optimizations := optimizations optimization_results @ [instance_optimization]\<rparr>;
               asg_optimization = check_asg_efficiency a a project_name environment;
               optimization_results = optimization_results
                 \<lparr>optimizations := optimizations optimization_results @ [asg_optimization]\<rparr>;
               s3_optimization = optimize_s3_storage a bucket_name;
               optimization_results = optimization_results
                 \<lparr>optimizations := optimizations optimization_results @ [s3_optimization]\<rparr>;
               tagging_optimization = check_tagging_compliance a a project_name environment;
               optimization_results = optimization_results
                 \<lparr>optimizations := optimizations optimization_results @ [tagging_optimization]\<rparr>;
               cost_anomalies = identify_cost_anomalies a project_name environment;
               optimization_results = optimization_results
                 \<lparr>optimizations := optimizations optimization_results @ [cost_anomalies]\<rparr>
           in Inr optimization_results))))))"

definition finding_set_json :: "finding_set \<Rightarrow> json" where
  "finding_set_json opt =
     JObj [(''category'', JStr (category opt)),
           (''findings'', JList (map JStr (findings opt))),
           (''recommendations'', JList (map JStr (recommendations opt))),
           (''potential_savings'', JInt (potential_savings opt))]"

definition report_json :: "report \<Rightarrow> json" where
  "report_json r =
     JObj [(''timestamp'', JStr (timestamp r)),
           (''project'', JStr (project r)),
           (''environment'', JStr (report_environment r)),
           (''optimizations'', JList (map finding_set_json (optimizations r)))]"

definition cost_optimizer_handler :: "aws \<Rightarrow> lambda_context \<Rightarrow> response" where
  "cost_optimizer_handler a context =
     (case cost_optimizer_try a context of
        Inr optimization_results \<Rightarrow>
          \<lparr>statusCode = 200, body = report_json optimization_results\<rparr>
      | Inl e \<Rightarrow> \<lparr>statusCode = 500, body = JObj [(''error'', JStr (str_exn e))]\<rparr>)"

section \<open>The workspace manager\<close>

subsection \<open>Its view of the account\<close>

record vpc =
  VpcCidrBlock :: string
  VpcState :: string

record subnet =
  SubnetId :: string
  SubnetCidrBlock :: string
  AvailabilityZone :: string
  AvailableIpAddressCount :: int
  SubnetState :: string
  SubnetTags :: "(string \<times> string) list option"

record security_group =
  GroupId :: string
  GroupName :: string
  Description :: string
  IpPermissions :: "string list"
  IpPermissionsEgress :: "string list"

text \<open>An address of a NAT gateway; a private gateway's address has no \<open>PublicIp\<close> key.\<close>

record nat_gateway_address =
  PublicIp :: "string option"

record nat_gateway =
  NatGatewayId :: string
  NatSubnetId :: string
  NatState :: string
  NatGatewayAddresses :: "nat_gateway_address list"

text \<open>A \<open>datetime\<close> of a response is carried as the string \<open>str\<close> gives for it.\<close>

record parameter =
  ParameterLastModifiedDate :: string
  ParameterVersion :: int
  ParameterValue :: string

record parameter_metadata =
  ParameterName :: string
  ParameterType :: string
  MetadataLastModifiedDate :: string
  MetadataVersion :: int

text \<open>
  The calls the workspace manager adds to those of the cost optimizer. \<open>json_loads\<close> is
  the library's parser, \<open>None\<close> where it raises \<open>JSONDecodeError\<close>; \<open>put_parameter\<close> takes
  the name and the value and returns the exception it raises, if any.
\<close>

record workspace_aws = aws +
  describe_vpcs :: "string list \<Rightarrow> exn + vpc list"
  describe_subnets :: "(string \<times> string list) list \<Rightarrow> exn + subnet list"
  describe_security_groups :: "(string \<times> string list) list \<Rightarrow> exn + security_group list"
  describe_nat_gateways :: "(string \<times> string list) list \<Rightarrow> exn + nat_gateway list"
  head_bucket :: "string \<Rightarrow> exn option"
  get_bucket_versioning :: "string \<Rightarrow> exn + string option"
  get_bucket_encryption :: "string \<Rightarrow> exn option"
  get_parameter :: "string \<Rightarrow> exn + parameter"
  describe_parameters :: "string \<Rightarrow> exn + parameter_metadata list"
  put_parameter :: "string \<Rightarrow> json \<Rightarrow> exn option"
  json_loads :: "string \<Rightarrow> json option"
  now_isoformat :: string

subsection \<open>\<open>check_vpc_resources\<close>\<close>

record subnet_info =
  subnet_id :: string
  subnet_cidr_block :: string
  availability_zone :: string
  available_ip_count :: int
  subnet_state :: string
  subnet_type :: "string option"

record sg_info =
  group_id :: string
  group_name :: string
  description :: string
  ingress_rules :: nat
  egress_rules :: nat

record nat_info =
  nat_gateway_id :: string
  nat_subnet_id :: string
  nat_state :: string
  public_ip :: "string option"

record vpc_info =
  vpc_id :: string
  subnets :: "subnet_info list"
  security_groups :: "sg_info list"
  route_tables :: "json list"
  internet_gateways :: "json list"
  nat_gateways :: "nat_info list"
  vpc_cidr_block :: "string option"
  vpc_state :: "string option"
  vpc_error :: "string option"

definition subnet_info_of :: "subnet \<Rightarrow> subnet_info" where
  "subnet_info_of sn =
     \<lparr>subnet_id = SubnetId sn, subnet_cidr_block = SubnetCidrBlock sn,
      availability_zone = AvailabilityZone sn,
      available_ip_count = AvailableIpAddressCount sn, subnet_state = SubnetState sn,
      subnet_type = map_option snd (first_tag ''Type'' (tags_or_empty (SubnetTags sn)))\<rparr>"

definition sg_info_of :: "security_group \<Rightarrow> sg_info" where
  "sg_info_of sg =
     \<lparr>group_id = GroupId sg, group_name = GroupName sg, description = Description sg,
      ingress_rules = length (IpPermissions sg),
      egress_rules = length (IpPermissionsEgress sg)\<rparr>"

text \<open>\<open>nat['NatGatewayAddresses'][0]['PublicIp'] if nat['NatGatewayAddresses'] else None\<close>\<close>

definition nat_info_of :: "nat_gateway \<Rightarrow> exn + nat_info" where
  "nat_info_of ng =
     (case (case NatGatewayAddresses ng of
              [] \<Rightarrow> Inr None
            | addr # _ \<Rightarrow>
                (case PublicIp addr of None \<Rightarrow> Inl (KeyError ''PublicIp'') | Some ip \<Rightarrow> Inr (Some ip))) of
        Inl e \<Rightarrow> Inl e
      | Inr ip \<Rightarrow>
          Inr \<lparr>nat_gateway_id = NatGatewayId ng, nat_subnet_id = NatSubnetId ng,
               nat_state = NatState ng, public_ip = ip\<rparr>)"

fun nat_gateways_loop :: "nat_gateway list \<Rightarrow> vpc_info \<Rightarrow> exn \<times> vpc_info + vpc_info" where
  "nat_gateways_loop [] info = Inr info"
| "nat_gateways_loop (ng # rest) info =
     (case nat_info_of ng of
        Inl e \<Rightarrow> Inl (e, info)
      | Inr ni \<Rightarrow> nat_gateways_loop rest (info\<lparr>nat_gateways := nat_gateways info @ [ni]\<rparr>))"

definition workspace_filters :: "string \<Rightarrow> string \<Rightarrow> (string \<times> string list) list" where
  "workspace_filters vpcid workspace = [(''vpc-id'', [vpcid]), (''tag:Workspace'', [workspace])]"

definition check_vpc_resources_try ::
  "workspace_aws \<Rightarrow> string \<Rightarrow> string \<Rightarrow> vpc_info \<Rightarrow> exn \<times> vpc_info + vpc_info" where
  "check_vpc_resources_try ec2 vpcid workspace info =
     (case describe_vpcs ec2 [vpcid] of
        Inl e \<Rightarrow> Inl (e, info)
      | Inr vpcs \<Rightarrow>
     (let info = (case vpcs of
                    [] \<Rightarrow> info
                  | v # _ \<Rightarrow> info\<lparr>vpc_cidr_block := Some (VpcCidrBlock v),
                                   vpc_state := Some (VpcState v)\<rparr>)
      in case describe_subnets ec2 (workspace_filters vpcid workspace) of
        Inl e \<Rightarrow> Inl (e, info)
      | Inr sns \<Rightarrow>
     (let info = info\<lparr>subnets := subnets info @ map subnet_info_of sns\<rparr>
      in case describe_security_groups ec2 (workspace_filters vpcid workspace) of
        Inl e \<Rightarrow> Inl (e, info)
      | Inr sgs \<Rightarrow>
     (let info = info\<lparr>security_groups := security_groups info @ map sg_info_of sgs\<rparr>
      in case describe_nat_gateways ec2 (workspace_filters vpcid workspace) of
        Inl e \<Rightarrow> Inl (e, info)
      | Inr ngs \<Rightarrow> nat_gateways_loop ngs info))))"

definition check_vpc_resources :: "workspace_aws \<Rightarrow> string \<Rightarrow> string \<Rightarrow> vpc_info" where
  "check_vpc_resources ec2 vpcid workspace =
     (case check_vpc_resources_try ec2 vpcid workspace
             \<lparr>vpc_id = vpcid, subnets = [], security_groups = [], route_tables = [],
              internet_gateways = [], nat_gateways = [], vpc_cidr_block = None,
              vpc_state = None, vpc_error = None\<rparr> of
        Inl (e, info) \<Rightarrow> info\<lparr>vpc_error := Some (str_exn e)\<rparr>
      | Inr info \<Rightarrow> info)"

subsection \<open>\<open>check_workspace_asgs\<close>\<close>

record asg_details =
  asg_name :: string
  min_size :: int
  max_size :: int
  desired_capacity :: int
  current_instances :: int
  healthy_instances :: int
  availability_zones :: "string list"
  launch_template :: string

record asg_info =
  auto_scaling_groups :: "asg_details list"
  total_instances :: int
  total_healthy_instances :: int
  asg_error :: "string option"

definition healthy_count :: "auto_scaling_group \<Rightarrow> int" where
  "healthy_count asg = int (length (filter (\<lambda>i. HealthStatus i = ''Healthy'') (AsgInstances asg)))"

definition asg_details_of :: "auto_scaling_group \<Rightarrow> asg_details" where
  "asg_details_of asg =
     \<lparr>asg_name = AutoScalingGroupName asg, min_size = MinSize asg, max_size = MaxSize asg,
      desired_capacity = DesiredCapacity asg,
      current_instances = int (length (AsgInstances asg)),
      healthy_instances = healthy_count asg,
      availability_zones = AvailabilityZones asg,
      launch_template = (case LaunchTemplateName asg of None \<Rightarrow> ''N/A'' | Some n \<Rightarrow> n)\<rparr>"

fun workspace_asgs_loop :: "string \<Rightarrow> auto_scaling_group list \<Rightarrow> asg_info \<Rightarrow> asg_info" where
  "workspace_asgs_loop workspace [] info = info"
| "workspace_asgs_loop workspace (asg # rest) info =
     workspace_asgs_loop workspace rest
       (if (''Workspace'', workspace) \<in> set (tags_or_empty (AsgTags asg))
        then info\<lparr>auto_scaling_groups := auto_scaling_groups info @ [asg_details_of asg],
                  total_instances := total_instances info + int (length (AsgInstances asg)),
                  total_healthy_instances := total_healthy_instances info + healthy_count asg\<rparr>
        else info)"

definition check_workspace_asgs :: "workspace_aws \<Rightarrow> string \<Rightarrow> string \<Rightarrow> asg_info" where
  "check_workspace_asgs autoscaling project_name workspace =
     (let info = \<lparr>auto_scaling_groups = [], total_instances = 0, total_healthy_instances = 0,
                  asg_error = None\<rparr>
      in case describe_auto_scaling_groups autoscaling of
           Inl e \<Rightarrow> info\<lparr>asg_error := Some (str_exn e)\<rparr>
         | Inr response \<Rightarrow> workspace_asgs_loop workspace response info)"

subsection \<open>\<open>check_s3_resources\<close>\<close>

record s3_info =
  bucket_name :: string
  exists :: bool
  versioning :: string
  encryption :: string
  object_count :: int
  total_size_bytes :: int
  s3_error :: "string option"

text \<open>The inner \<open>try\<close> around \<open>get_bucket_encryption\<close>: it never raises.\<close>

definition encryption_status :: "workspace_aws \<Rightarrow> string \<Rightarrow> string" where
  "encryption_status s3 bucket =
     (case get_bucket_encryption s3 bucket of
        None \<Rightarrow> ''Enabled''
      | Some (NoSuchBucket m) \<Rightarrow> ''Disabled''
      | Some e \<Rightarrow> ''Unknown'')"

definition check_s3_resources_try ::
  "workspace_aws \<Rightarrow> string \<Rightarrow> string \<Rightarrow> s3_info \<Rightarrow> exn \<times> s3_info + s3_info" where
  "check_s3_resources_try s3 bucket workspace info =
     (case head_bucket s3 bucket of
        Some e \<Rightarrow> Inl (e, info)
      | None \<Rightarrow>
     (let info = info\<lparr>exists := True\<rparr>
      in case get_bucket_versioning s3 bucket of
        Inl e \<Rightarrow> Inl (e, info)
      | Inr status \<Rightarrow>
     (let info = info\<lparr>versioning := (case status of None \<Rightarrow> ''Suspended'' | Some v \<Rightarrow> v)\<rparr>;
          info = info\<lparr>encryption := encryption_status s3 bucket\<rparr>
      in case list_objects_v2 s3 bucket 1000 of
        Inl e \<Rightarrow> Inl (e, info)
      | Inr None \<Rightarrow> Inr info
      | Inr (Some contents) \<Rightarrow>
          Inr (info\<lparr>object_count := int (length contents),
                    total_size_bytes := sum_list (map Size contents)\<rparr>))))"

definition check_s3_resources :: "workspace_aws \<Rightarrow> string \<Rightarrow> string \<Rightarrow> s3_info" where
  "check_s3_resources s3 bucket workspace =
     (case check_s3_resources_try s3 bucket workspace
             \<lparr>bucket_name = bucket, exists = False, versioning = ''Unknown'',
              encryption = ''Unknown'', object_count = 0, total_size_bytes = 0,
              s3_error = None\<rparr> of
        Inl (e, info) \<Rightarrow> info\<lparr>s3_error := Some (str_exn e)\<rparr>
      | Inr info \<Rightarrow> info)"

subsection \<open>\<open>check_ssm_parameters\<close>\<close>

record param_info =
  param_name :: string
  param_type :: string
  param_last_modified :: string
  param_version :: int

record ssm_info =
  parameters :: "param_info list"
  workspace_config_exists :: bool
  config_last_modified :: "string option"
  config_version :: "int option"
  config_data :: "json option"
  ssm_error :: "string option"

definition param_info_of :: "parameter_metadata \<Rightarrow> param_info" where
  "param_info_of pm =
     \<lparr>param_name = ParameterName pm, param_type = ParameterType pm,
      param_last_modified = MetadataLastModifiedDate pm, param_version = MetadataVersion pm\<rparr>"

definition workspace_config ::
  "workspace_aws \<Rightarrow> string \<Rightarrow> ssm_info \<Rightarrow> exn \<times> ssm_info + ssm_info" where
  "workspace_config ssm config_param_name info =
     (case get_parameter ssm config_param_name of
        Inr param \<Rightarrow>
          Inr (info\<lparr>workspace_config_exists := True,
                    config_last_modified := Some (ParameterLastModifiedDate param),
                    config_version := Some (ParameterVersion param),
                    config_data :=
                      Some (case json_loads ssm (ParameterValue param) of
                              Some config \<Rightarrow> config
                            | None \<Rightarrow> JStr ''Invalid JSON'')\<rparr>)
      | Inl (ParameterNotFound m) \<Rightarrow> Inr (info\<lparr>workspace_config_exists := False\<rparr>)
      | Inl e \<Rightarrow> Inl (e, info))"

definition check_ssm_parameters :: "workspace_aws \<Rightarrow> string \<Rightarrow> string \<Rightarrow> ssm_info" where
  "check_ssm_parameters ssm project_name workspace =
     (let info = \<lparr>parameters = [], workspace_config_exists = False,
                  config_last_modified = None, config_version = None, config_data = None,
                  ssm_error = None\<rparr>
      in case (case workspace_config ssm (''/'' @ project_name @ ''/'' @ workspace @ ''/config'')
                      info of
                 Inl x \<Rightarrow> Inl x
               | Inr info \<Rightarrow>
                   (case describe_parameters ssm (''/'' @ project_name @ ''/'' @ workspace @ ''/'') of
                      Inl e \<Rightarrow> Inl (e, info)
                    | Inr ps \<Rightarrow> Inr (info\<lparr>parameters := parameters info @ map param_info_of ps\<rparr>))) of
           Inl (e, info) \<Rightarrow> info\<lparr>ssm_error := Some (str_exn e)\<rparr>
         | Inr info \<Rightarrow> info)"

subsection \<open>The health validators\<close>

record health =
  status :: string
  issues :: "string list"
  warnings :: "string list"

definition new_health :: health where
  "new_health = \<lparr>status = ''healthy'', issues = [], warnings = []\<rparr>"

definition add_warning :: "string \<Rightarrow> health \<Rightarrow> health" where
  "add_warning w h = h\<lparr>warnings := warnings h @ [w]\<rparr>"

text \<open>\<open>f"{x}"\<close> of an optional string: \<open>None\<close> prints as \<open>None\<close>.\<close>

definition str_opt :: "string option \<Rightarrow> string" where
  "str_opt x = (case x of None \<Rightarrow> ''None'' | Some v \<Rightarrow> v)"

text \<open>
  The loop of \<open>validate_vpc_health\<close> over the subnets: it files each subnet under its type
  in \<open>subnets_by_type\<close> and warns about a low count of available addresses.
\<close>

fun vpc_subnets_loop ::
  "subnet_info list \<Rightarrow> (string \<rightharpoonup> subnet_info list) \<times> health
     \<Rightarrow> (string \<rightharpoonup> subnet_info list) \<times> health" where
  "vpc_subnets_loop [] (subnets_by_type, h) = (subnets_by_type, h)"
| "vpc_subnets_loop (sn # rest) (subnets_by_type, h) =
     (let sn_type = (case subnet_type sn of None \<Rightarrow> ''unknown'' | Some t \<Rightarrow> t);
          subnets_by_type =
            (if subnets_by_type sn_type = None then subnets_by_type(sn_type \<mapsto> [])
             else subnets_by_type);
          subnets_by_type =
            subnets_by_type(sn_type \<mapsto> the (subnets_by_type sn_type) @ [sn]);
          h = (if available_ip_count sn < 10
               then add_warning
                      (''Subnet '' @ subnet_id sn @ '' has low available IPs: ''
                         @ str_int (available_ip_count sn)) h
               else h)
      in vpc_subnets_loop rest (subnets_by_type, h))"

fun expected_types_loop ::
  "string list \<Rightarrow> (string \<rightharpoonup> subnet_info list) \<Rightarrow> health \<Rightarrow> health" where
  "expected_types_loop [] subnets_by_type h = h"
| "expected_types_loop (expected_type # rest) subnets_by_type h =
     expected_types_loop rest subnets_by_type
       (if subnets_by_type expected_type = None
        then add_warning (''No '' @ expected_type @ '' subnets found'') h
        else h)"

definition validate_vpc_health :: "vpc_info \<Rightarrow> health" where
  "validate_vpc_health info =
     (let h = new_health;
          h = (if vpc_state info \<noteq> Some ''available''
               then h\<lparr>issues := issues h
                         @ [''VPC state is '' @ str_opt (vpc_state info)
                              @ '', expected '' @ [CHR 0x27] @ ''available'' @ [CHR 0x27]],
                       status := ''unhealthy''\<rparr>
               else h);
          (subnets_by_type, h) = vpc_subnets_loop (subnets info) (Map.empty, h)
      in expected_types_loop [''public'', ''private''] subnets_by_type h)"

definition asg_warnings :: "string \<Rightarrow> asg_details \<Rightarrow> health \<Rightarrow> health" where
  "asg_warnings workspace asg h =
     (let h = (if healthy_instances asg < current_instances asg
               then add_warning
                      (''ASG '' @ asg_name asg @ '' has unhealthy instances: ''
                         @ str_int (current_instances asg - healthy_instances asg)) h
               else h);
          h = (if current_instances asg \<noteq> desired_capacity asg
               then add_warning
                      (''ASG '' @ asg_name asg @ '' current instances (''
                         @ str_int (current_instances asg) @ '') doesn'' @ [CHR 0x27]
                         @ ''t match desired ('' @ str_int (desired_capacity asg) @ '')'') h
               else h)
      in if workspace = ''prod''
         then
           (let h = (if min_size asg < 2
                     then add_warning
                            (''Production ASG '' @ asg_name asg
                               @ '' should have min_size >= 2 for HA'') h
                     else h)
            in if length (availability_zones asg) < 2
               then add_warning
                      (''Production ASG '' @ asg_name asg @ '' should span multiple AZs'') h
               else h)
         else h)"

fun asg_health_loop :: "string \<Rightarrow> asg_details list \<Rightarrow> health \<Rightarrow> health" where
  "asg_health_loop workspace [] h = h"
| "asg_health_loop workspace (asg # rest) h =
     asg_health_loop workspace rest (asg_warnings workspace asg h)"

definition validate_asg_health :: "asg_info \<Rightarrow> string \<Rightarrow> health" where
  "validate_asg_health info workspace =
     (let h = new_health
      in if auto_scaling_groups info = []
         then h\<lparr>issues := issues h @ [''No Auto Scaling Groups found for this workspace''],
                status := ''unhealthy''\<rparr>
         else asg_health_loop workspace (auto_scaling_groups info) h)"

definition validate_s3_health :: "s3_info \<Rightarrow> health" where
  "validate_s3_health info =
     (let h = new_health
      in if \<not> exists info
         then h\<lparr>issues := issues h @ [''S3 bucket does not exist''], status := ''unhealthy''\<rparr>
         else if encryption info = ''Disabled''
         then add_warning ''S3 bucket encryption is disabled'' h
         else h)"

subsection \<open>\<open>generate_recommendations\<close>\<close>

text \<open>The dictionaries \<open>resources\<close> and \<open>health_checks\<close>: a key is present or not.\<close>

record resources =
  res_vpc :: "vpc_info option"
  res_autoscaling :: "asg_info option"
  res_s3 :: "s3_info option"
  res_ssm :: "ssm_info option"

record health_checks =
  hc_vpc :: "health option"
  hc_autoscaling :: "health option"
  hc_s3 :: "health option"

record workspace_info =
  ws_workspace :: string
  ws_environment :: string
  ws_project_name :: string
  ws_timestamp :: string
  ws_function_name :: string
  ws_resources :: resources
  ws_health_checks :: health_checks
  ws_recommendations :: "string list"

definition dev_or_test :: "string \<Rightarrow> bool" where
  "dev_or_test workspace = (workspace \<in> set [''dev'', ''test''])"

definition vpc_recommendations :: "vpc_info option \<Rightarrow> string \<Rightarrow> string list" where
  "vpc_recommendations v workspace =
     (case v of
        None \<Rightarrow> []
      | Some info \<Rightarrow>
          if dev_or_test workspace \<and> nat_gateways info \<noteq> []
          then [''Consider removing NAT Gateways in dev/test environments to reduce costs'']
          else if workspace = ''prod'' \<and> nat_gateways info = []
          then [''Production environment should have NAT Gateways for private subnet internet access'']
          else [])"

definition asg_recommendations :: "asg_info option \<Rightarrow> string \<Rightarrow> string list" where
  "asg_recommendations a workspace =
     (case a of
        None \<Rightarrow> []
      | Some info \<Rightarrow>
          if dev_or_test workspace \<and> total_instances info > 2
          then [''Consider reducing instance count in dev/test environments for cost optimization'']
          else if workspace = ''prod'' \<and> total_instances info < 3
          then [''Production environment should have at least 3 instances for high availability'']
          else [])"

definition s3_recommendations :: "s3_info option \<Rightarrow> string \<Rightarrow> string list" where
  "s3_recommendations b workspace =
     (case b of
        None \<Rightarrow> []
      | Some info \<Rightarrow>
          if workspace = ''prod'' \<and> versioning info \<noteq> ''Enabled''
          then [''Enable S3 versioning for production environments'']
          else if dev_or_test workspace \<and> versioning info = ''Enabled''
          then [''Consider disabling S3 versioning in dev/test to reduce storage costs'']
          else [])"

definition generate_recommendations :: "workspace_info \<Rightarrow> string \<Rightarrow> string list" where
  "generate_recommendations info workspace =
     vpc_recommendations (res_vpc (ws_resources info)) workspace
     @ asg_recommendations (res_autoscaling (ws_resources info)) workspace
     @ s3_recommendations (res_s3 (ws_resources info)) workspace
     @ (if workspace = ''default''
        then [''Consider creating dedicated workspaces (dev, staging, prod) instead of using default'']
        else [])"

subsection \<open>\<open>store_workspace_status\<close>\<close>

definition unhealthy :: "health option \<Rightarrow> bool" where
  "unhealthy h = (case h of None \<Rightarrow> False | Some v \<Rightarrow> status v = ''unhealthy'')"

definition status_summary :: "workspace_info \<Rightarrow> string \<Rightarrow> json" where
  "status_summary info workspace =
     (let res = ws_resources info; hc = ws_health_checks info
      in JObj
        [(''workspace'', JStr workspace),
         (''last_check'', JStr (ws_timestamp info)),
         (''overall_health'',
            JStr (if unhealthy (hc_vpc hc) \<or> unhealthy (hc_autoscaling hc) \<or> unhealthy (hc_s3 hc)
                  then ''unhealthy'' else ''healthy'')),
         (''resource_counts'', JObj
            [(''vpc_subnets'',
                JInt (case res_vpc res of None \<Rightarrow> 0 | Some v \<Rightarrow> int (length (subnets v)))),
             (''security_groups'',
                JInt (case res_vpc res of None \<Rightarrow> 0 | Some v \<Rightarrow> int (length (security_groups v)))),
             (''auto_scaling_groups'',
                JInt (case res_autoscaling res of
                        None \<Rightarrow> 0 | Some a \<Rightarrow> int (length (auto_scaling_groups a)))),
             (''total_instances'',
                JInt (case res_autoscaling res of None \<Rightarrow> 0 | Some a \<Rightarrow> total_instances a))]),
         (''recommendations_count'', JInt (int (length (ws_recommendations info))))])"

text \<open>
  The write to the parameter store. Whatever \<open>put_parameter\<close> raises is logged and
  dropped: the result is the exception that was logged, if any.
\<close>

definition store_workspace_status ::
  "workspace_aws \<Rightarrow> workspace_info \<Rightarrow> string \<Rightarrow> string \<Rightarrow> exn option" where
  "store_workspace_status ssm info project_name workspace =
     put_parameter ssm (''/'' @ project_name @ ''/'' @ workspace @ ''/status'')
       (status_summary info workspace)"

subsection \<open>\<open>handler\<close> of the workspace manager\<close>

text \<open>\<open>d.get(k, default)\<close>\<close>

definition get_or :: "(string \<rightharpoonup> string) \<Rightarrow> string \<Rightarrow> string \<Rightarrow> string" where
  "get_or d k dflt = (case d k of None \<Rightarrow> dflt | Some v \<Rightarrow> v)"

text \<open>
  The \<open>try\<close> block. It ends with the document to serialise, or with \<open>Inl (e, w)\<close> when \<open>e\<close>
  was raised, where \<open>w\<close> is the local variable \<open>workspace\<close>: \<open>None\<close> as long as it has not
  been assigned.
\<close>

definition workspace_manager_try ::
  "workspace_aws \<Rightarrow> lambda_context \<Rightarrow> exn \<times> string option + workspace_info" where
  "workspace_manager_try a context =
     (case context_environment context of
        Inl e \<Rightarrow> Inl (e, None)
      | Inr env \<Rightarrow>
     (let workspace = get_or env ''WORKSPACE'' ''unknown'';
          environment = get_or env ''ENVIRONMENT'' ''unknown'';
          project_name = get_or env ''PROJECT_NAME'' ''unknown'';
          vpcid = get_or env ''VPC_ID'' [];
          bucket = get_or env ''BUCKET_NAME'' [];
          log_group = get_or env ''LOG_GROUP'' []
      in case clients a [''ec2'', ''autoscaling'', ''s3'', ''ssm'', ''cloudwatch''] of
        Some e \<Rightarrow> Inl (e, Some workspace)
      | None \<Rightarrow>
     (case context_function_name context of
        Inl e \<Rightarrow> Inl (e, Some workspace)
      | Inr fname \<Rightarrow>
     (let info = \<lparr>ws_workspace = workspace, ws_environment = environment,
                  ws_project_name = project_name, ws_timestamp = now_isoformat a,
                  ws_function_name = fname,
                  ws_resources = \<lparr>res_vpc = None, res_autoscaling = None, res_s3 = None,
                                  res_ssm = None\<rparr>,
                  ws_health_checks = \<lparr>hc_vpc = None, hc_autoscaling = None, hc_s3 = None\<rparr>,
                  ws_recommendations = []\<rparr>;
          info = (if vpcid \<noteq> []
                  then (let v = check_vpc_resources a vpcid workspace
                        in info\<lparr>ws_resources := (ws_resources info)\<lparr>res_vpc := Some v\<rparr>,
                                ws_health_checks :=
                                  (ws_health_checks info)\<lparr>hc_vpc := Some (validate_vpc_health v)\<rparr>\<rparr>)
                  else info);
          asgs = check_workspace_asgs a project_name workspace;
          info = info\<lparr>ws_resources := (ws_resources info)\<lparr>res_autoscaling := Some asgs\<rparr>,
                      ws_health_checks :=
                        (ws_health_checks info)
                          \<lparr>hc_autoscaling := Some (validate_asg_health asgs workspace)\<rparr>\<rparr>;
          info = (if bucket \<noteq> []
                  then (let b = check_s3_resources a bucket workspace
                        in info\<lparr>ws_resources := (ws_resources info)\<lparr>res_s3 := Some b\<rparr>,
                                ws_health_checks :=
                                  (ws_health_checks info)\<lparr>hc_s3 := Some (validate_s3_health b)\<rparr>\<rparr>)
                  else info);
          ssm = check_ssm_parameters a project_name workspace;
          info = info\<lparr>ws_resources := (ws_resources info)\<lparr>res_ssm := Some ssm\<rparr>\<rparr>;
          info = info\<lparr>ws_recommendations := generate_recommendations info workspace\<rparr>;
          logged = store_workspace_status a info project_name workspace
      in Inr info))))"

subsection \<open>The documents of the workspace manager\<close>

text \<open>A key that the code adds only on some paths.\<close>

definition opt_key :: "string \<Rightarrow> ('a \<Rightarrow> json) \<Rightarrow> 'a option \<Rightarrow> (string \<times> json) list" where
  "opt_key k f v = (case v of None \<Rightarrow> [] | Some x \<Rightarrow> [(k, f x)])"

definition subnet_info_json :: "subnet_info \<Rightarrow> json" where
  "subnet_info_json sn =
     JObj ([(''subnet_id'', JStr (subnet_id sn)),
            (''cidr_block'', JStr (subnet_cidr_block sn)),
            (''availability_zone'', JStr (availability_zone sn)),
            (''available_ip_count'', JInt (available_ip_count sn)),
            (''state'', JStr (subnet_state sn))]
           @ opt_key ''type'' JStr (subnet_type sn))"

definition sg_info_json :: "sg_info \<Rightarrow> json" where
  "sg_info_json sg =
     JObj [(''group_id'', JStr (group_id sg)),
           (''group_name'', JStr (group_name sg)),
           (''description'', JStr (description sg)),
           (''ingress_rules'', JInt (int (ingress_rules sg))),
           (''egress_rules'', JInt (int (egress_rules sg)))]"

definition nat_info_json :: "nat_info \<Rightarrow> json" where
  "nat_info_json ng =
     JObj [(''nat_gateway_id'', JStr (nat_gateway_id ng)),
           (''subnet_id'', JStr (nat_subnet_id ng)),
           (''state'', JStr (nat_state ng)),
           (''public_ip'', (case public_ip ng of None \<Rightarrow> JNull | Some ip \<Rightarrow> JStr ip))]"

definition vpc_info_json :: "vpc_info \<Rightarrow> json" where
  "vpc_info_json v =
     JObj ([(''vpc_id'', JStr (vpc_id v)),
            (''subnets'', JList (map subnet_info_json (subnets v))),
            (''security_groups'', JList (map sg_info_json (security_groups v))),
            (''route_tables'', JList (route_tables v)),
            (''internet_gateways'', JList (internet_gateways v)),
            (''nat_gateways'', JList (map nat_info_json (nat_gateways v)))]
           @ opt_key ''cidr_block'' JStr (vpc_cidr_block v)
           @ opt_key ''state'' JStr (vpc_state v)
           @ opt_key ''error'' JStr (vpc_error v))"

definition asg_details_json :: "asg_details \<Rightarrow> json" where
  "asg_details_json d =
     JObj [(''name'', JStr (asg_name d)),
           (''min_size'', JInt (min_size d)),
           (''max_size'', JInt (max_size d)),
           (''desired_capacity'', JInt (desired_capacity d)),
           (''current_instances'', JInt (current_instances d)),
           (''healthy_instances'', JInt (healthy_instances d)),
           (''availability_zones'', JList (map JStr (availability_zones d))),
           (''launch_template'', JStr (launch_template d))]"

definition asg_info_json :: "asg_info \<Rightarrow> json" where
  "asg_info_json i =
     JObj ([(''auto_scaling_groups'', JList (map asg_details_json (auto_scaling_groups i))),
            (''total_instances'', JInt (total_instances i)),
            (''healthy_instances'', JInt (total_healthy_instances i))]
           @ opt_key ''error'' JStr (asg_error i))"

definition s3_info_json :: "s3_info \<Rightarrow> json" where
  "s3_info_json i =
     JObj ([(''bucket_name'', JStr (bucket_name i)),
            (''exists'', JBool (exists i)),
            (''versioning'', JStr (versioning i)),
            (''encryption'', JStr (encryption i)),
            (''object_count'', JInt (object_count i)),
            (''total_size_bytes'', JInt (total_size_bytes i))]
           @ opt_key ''error'' JStr (s3_error i))"

definition param_info_json :: "param_info \<Rightarrow> json" where
  "param_info_json p =
     JObj [(''name'', JStr (param_name p)),
           (''type'', JStr (param_type p)),
           (''last_modified'', JStr (param_last_modified p)),
           (''version'', JInt (param_version p))]"

definition ssm_info_json :: "ssm_info \<Rightarrow> json" where
  "ssm_info_json i =
     JObj ([(''parameters'', JList (map param_info_json (parameters i))),
            (''workspace_config_exists'', JBool (workspace_config_exists i))]
           @ opt_key ''config_last_modified'' JStr (config_last_modified i)
           @ opt_key ''config_version'' JInt (config_version i)
           @ opt_key ''config_data'' (\<lambda>j. j) (config_data i)
           @ opt_key ''error'' JStr (ssm_error i))"

definition health_json :: "health \<Rightarrow> json" where
  "health_json h =
     JObj [(''status'', JStr (status h)),
           (''issues'', JList (map JStr (issues h))),
           (''warnings'', JList (map JStr (warnings h)))]"

definition resources_json :: "resources \<Rightarrow> json" where
  "resources_json r =
     JObj (opt_key ''vpc'' vpc_info_json (res_vpc r)
           @ opt_key ''autoscaling'' asg_info_json (res_autoscaling r)
           @ opt_key ''s3'' s3_info_json (res_s3 r)
           @ opt_key ''ssm'' ssm_info_json (res_ssm r))"

definition health_checks_json :: "health_checks \<Rightarrow> json" where
  "health_checks_json h =
     JObj (opt_key ''vpc'' health_json (hc_vpc h)
           @ opt_key ''autoscaling'' health_json (hc_autoscaling h)
           @ opt_key ''s3'' health_json (hc_s3 h))"

definition workspace_info_json :: "workspace_info \<Rightarrow> json" where
  "workspace_info_json i =
     JObj [(''workspace'', JStr (ws_workspace i)),
           (''environment'', JStr (ws_environment i)),
           (''project_name'', JStr (ws_project_name i)),
           (''timestamp'', JStr (ws_timestamp i)),
           (''function_name'', JStr (ws_function_name i)),
           (''resources'', resources_json (ws_resources i)),
           (''health_checks'', health_checks_json (ws_health_checks i)),
           (''recommendations'', JList (map JStr (ws_recommendations i)))]"

text \<open>
  The handler. Its \<open>except\<close> block builds the error document from \<open>str(e)\<close>, the local
  variable \<open>workspace\<close> and a fresh timestamp; reading \<open>workspace\<close> before its assignment
  raises \<open>UnboundLocalError\<close>, which nothing catches: \<open>Inl\<close> is the exception that leaves
  the handler.
\<close>

definition workspace_manager_handler :: "workspace_aws \<Rightarrow> lambda_context \<Rightarrow> exn + response" where
  "workspace_manager_handler a context =
     (case workspace_manager_try a context of
        Inr info \<Rightarrow> Inr \<lparr>statusCode = 200, body = workspace_info_json info\<rparr>
      | Inl (e, None) \<Rightarrow> Inl (UnboundLocalError ''workspace'')
      | Inl (e, Some workspace) \<Rightarrow>
          Inr \<lparr>statusCode = 500,
               body = JObj [(''error'', JStr (str_exn e)),
                            (''workspace'', JStr workspace),
                            (''timestamp'', JStr (now_isoformat a))]\<rparr>)"

section \<open>Example accounts and contexts\<close>

text \<open>
  The text of the client library for a missing exception class of the S3 client, at
  some address and with the classes of one release.
\<close>

definition s3_exceptions_text :: "string \<Rightarrow> string" where
  "s3_exceptions_text name =
     ''<botocore.errorfactory.S3Exceptions object at 0x7f3a5c0d2b50>''
     @ '' object has no attribute '' @ name
     @ ''. Valid exceptions are: BucketAlreadyExists, BucketAlreadyOwnedByYou, ''
     @ ''InvalidObjectState, NoSuchBucket, NoSuchKey, NoSuchUpload, ''
     @ ''ObjectAlreadyInActiveTierError, ObjectNotInActiveTierError''"

text \<open>
  An account with nothing in it: no instance, no group, a bucket with a lifecycle
  configuration of no rule and no object, at noon. The numbers of the examples are
  small enough for the float operations to be exact.
\<close>

definition quiet_account :: aws where
  "quiet_account =
     \<lparr>boto3_client = (\<lambda>n. None),
      describe_instances = (\<lambda>filters. Inr []),
      get_metric_statistics = (\<lambda>instance_id. Inr []),
      describe_auto_scaling_groups = Inr [],
      describe_scheduled_actions = (\<lambda>asg_name. Inr []),
      get_bucket_lifecycle_configuration = (\<lambda>bucket. Inr []),
      list_objects_v2 = (\<lambda>bucket max_keys. Inr None),
      utcnow_isoformat = ''2024-05-01T12:00:00'',
      utcnow_hour = 12,
      now = (\<lambda>k. 8640000000000),
      s3_exceptions_getattr = s3_exceptions_text,
      float_sum = sum_list,
      float_div = (\<lambda>x y. x / y)\<rparr>"

text \<open>The state a loop was in when it ended, whether it raised or not.\<close>

definition final_state :: "exn \<times> 'a + 'a \<Rightarrow> 'a" where
  "final_state res = (case res of Inl (e, s) \<Rightarrow> s | Inr s \<Rightarrow> s)"

text \<open>
  Snapshots for the validators: a network that is still pending with one crowded subnet,
  one production group of a single instance in a single zone, and a bucket that does
  not exist although its encryption field reads \<open>Disabled\<close>.
\<close>

definition pending_vpc :: vpc_info where
  "pending_vpc =
     \<lparr>vpc_id = ''vpc-1'',
      subnets = [\<lparr>subnet_id = ''subnet-1'', subnet_cidr_block = ''10.0.0.0/28'',
                  availability_zone = ''eu-west-1a'', available_ip_count = 3,
                  subnet_state = ''available'', subnet_type = Some ''public''\<rparr>],
      security_groups = [], route_tables = [], internet_gateways = [], nat_gateways = [],
      vpc_cidr_block = Some ''10.0.0.0/16'', vpc_state = Some ''pending'', vpc_error = None\<rparr>"

definition single_group :: asg_details where
  "single_group =
     \<lparr>asg_name = ''web'', min_size = 1, max_size = 4, desired_capacity = 1,
      current_instances = 1, healthy_instances = 1, availability_zones = [''eu-west-1a''],
      launch_template = ''N/A''\<rparr>"

definition single_group_info :: asg_info where
  "single_group_info =
     \<lparr>auto_scaling_groups = [single_group], total_instances = 1,
      total_healthy_instances = 1, asg_error = None\<rparr>"

definition missing_bucket :: s3_info where
  "missing_bucket =
     \<lparr>bucket_name = ''assets'', exists = False, versioning = ''Unknown'',
      encryption = ''Disabled'', object_count = 0, total_size_bytes = 0,
      s3_error = Some ''Not Found''\<rparr>"

text \<open>
  A fleet of five running instances in two reservations, with the daily averages of
  their CPU metric: two idle ones (one of them of a \<open>t3\<close> type), a busy one, a steady
  one and one without datapoints.
\<close>

definition small_idle :: ec2_instance where
  "small_idle = \<lparr>InstanceId = ''i-small'', InstanceType = ''t3.micro'', InstanceTags = None\<rparr>"

definition large_idle :: ec2_instance where
  "large_idle = \<lparr>InstanceId = ''i-large'', InstanceType = ''m5.large'', InstanceTags = None\<rparr>"

definition busy :: ec2_instance where
  "busy = \<lparr>InstanceId = ''i-busy'', InstanceType = ''t3.small'', InstanceTags = None\<rparr>"

definition steady :: ec2_instance where
  "steady = \<lparr>InstanceId = ''i-steady'', InstanceType = ''t3.small'', InstanceTags = None\<rparr>"

definition silent :: ec2_instance where
  "silent = \<lparr>InstanceId = ''i-silent'', InstanceType = ''t3.small'', InstanceTags = None\<rparr>"

definition fleet_metrics :: "string \<Rightarrow> exn + rat list" where
  "fleet_metrics instance_id =
     (if instance_id = ''i-small'' then Inr [5]
      else if instance_id = ''i-large'' then Inr [4, 6]
      else if instance_id = ''i-busy'' then Inr [85]
      else if instance_id = ''i-steady'' then Inr [50]
      else Inr [])"

definition fleet_account :: aws where
  "fleet_account = quiet_account
     \<lparr>describe_instances :=
        (\<lambda>filters. Inr [\<lparr>Instances = [small_idle, large_idle]\<rparr>,
                         \<lparr>Instances = [busy, steady, silent]\<rparr>]),
      get_metric_statistics := fleet_metrics\<rparr>"

definition steady_account :: aws where
  "steady_account = quiet_account
     \<lparr>describe_instances := (\<lambda>filters. Inr [\<lparr>Instances = [steady]\<rparr>, \<lparr>Instances = [silent]\<rparr>]),
      get_metric_statistics := fleet_metrics\<rparr>"

text \<open>A metric series for which the utilization check has nothing to say.\<close>

definition quiet_series :: "aws \<Rightarrow> rat list \<Rightarrow> bool" where
  "quiet_series cw dps = (dps = [] \<or> (10 \<le> average cw dps \<and> average cw dps \<le> 80))"

text \<open>
  What every step of a check keeps: the category, and savings that do not shrink.
\<close>

definition grows :: "finding_set \<Rightarrow> finding_set \<Rightarrow> bool" where
  "grows opt opt' = (category opt' = category opt \<and> potential_savings opt \<le> potential_savings opt')"

text \<open>
  An account that refuses the listing calls, and the fleet with a metric call that fails
  at the third instance; the context of the cost optimizer with its three variables.
\<close>

definition denied_account :: aws where
  "denied_account = quiet_account
     \<lparr>describe_instances := (\<lambda>filters. Inl (ClientError ''AccessDenied'')),
      describe_auto_scaling_groups := Inl (ClientError ''Throttling''),
      get_bucket_lifecycle_configuration := (\<lambda>bucket. Inl (ClientError ''AccessDenied'')),
      utcnow_hour := 23\<rparr>"

definition flaky_account :: aws where
  "flaky_account = fleet_account
     \<lparr>get_metric_statistics :=
        (\<lambda>instance_id. if instance_id = ''i-busy'' then Inl (ClientError ''Throttling'')
                        else fleet_metrics instance_id)\<rparr>"

definition shop_context :: lambda_context where
  "shop_context =
     \<lparr>context_environment =
        Inr (map_of [(''PROJECT_NAME'', ''shop''), (''ENVIRONMENT'', ''dev''),
                     (''BUCKET_NAME'', ''assets'')]),
      context_function_name = Inr ''cost-optimizer''\<rparr>"

text \<open>
  The number of objects of a listing that are older than 30 days when the loop looks at
  them: the count the storage check is to cite.
\<close>

definition old_among :: "(nat \<Rightarrow> int) \<Rightarrow> s3_object list \<Rightarrow> nat" where
  "old_among clock contents =
     length (filter (\<lambda>(k, obj). 30 < age_days (clock k) obj) (enumerate 0 contents))"

text \<open>
  A bucket of 1500 objects of one mebibyte, 540 of them a hundred days old and 40 of
  those among the first thousand; the listing returns at most \<open>MaxKeys\<close> objects.
\<close>

definition old_object :: s3_object where
  "old_object = \<lparr>Size = 1048576, LastModified = 0\<rparr>"

definition fresh_object :: s3_object where
  "fresh_object = \<lparr>Size = 1048576, LastModified = 8553600000000\<rparr>"

definition big_bucket :: "s3_object list" where
  "big_bucket = replicate 40 old_object @ replicate 960 fresh_object @ replicate 500 old_object"

definition big_bucket_account :: aws where
  "big_bucket_account = quiet_account
     \<lparr>get_bucket_lifecycle_configuration :=
        (\<lambda>bucket. Inl (NoSuchLifecycleConfiguration ''The lifecycle configuration does not exist'')),
      list_objects_v2 := (\<lambda>bucket max_keys. Inr (Some (take max_keys big_bucket)))\<rparr>"

text \<open>
  The workspace manager's view of the empty account, a context object without the
  attribute \<open>environment\<close>, and a context whose environment holds no variable at all.
\<close>

definition quiet_workspace_account :: workspace_aws where
  "quiet_workspace_account =
     \<lparr>boto3_client = (\<lambda>n. None),
      describe_instances = (\<lambda>filters. Inr []),
      get_metric_statistics = (\<lambda>instance_id. Inr []),
      describe_auto_scaling_groups = Inr [],
      describe_scheduled_actions = (\<lambda>asg_name. Inr []),
      get_bucket_lifecycle_configuration = (\<lambda>bucket. Inr []),
      list_objects_v2 = (\<lambda>bucket max_keys. Inr None),
      utcnow_isoformat = ''2024-05-01T12:00:00'',
      utcnow_hour = 12,
      now = (\<lambda>k. 8640000000000),
      s3_exceptions_getattr = s3_exceptions_text,
      float_sum = sum_list,
      float_div = (\<lambda>x y. x / y),
      describe_vpcs = (\<lambda>ids. Inr []),
      describe_subnets = (\<lambda>filters. Inr []),
      describe_security_groups = (\<lambda>filters. Inr []),
      describe_nat_gateways = (\<lambda>filters. Inr []),
      head_bucket = (\<lambda>bucket. None),
      get_bucket_versioning = (\<lambda>bucket. Inr None),
      get_bucket_encryption = (\<lambda>bucket. None),
      get_parameter = (\<lambda>name. Inl (ParameterNotFound ''ParameterNotFound'')),
      describe_parameters = (\<lambda>path. Inr []),
      put_parameter = (\<lambda>name v. None),
      json_loads = (\<lambda>s. None),
      now_isoformat = ''2024-05-01T12:00:00+00:00''\<rparr>"

definition bare_context :: lambda_context where
  "bare_context =
     \<lparr>context_environment = Inl (AttributeError ''no attribute environment''),
      context_function_name = Inr ''workspace-manager''\<rparr>"

definition empty_context :: lambda_context where
  "empty_context =
     \<lparr>context_environment = Inr Map.empty,
      context_function_name = Inr ''workspace-manager''\<rparr>"

text \<open>
  The rules of the utilization check, instance by instance, as the specification words
  them: what one running instance contributes to the findings, to the recommendations
  and to the potential savings, given the datapoints that the metric call returns for
  it (none when the call raises).
\<close>

definition metric_series :: "aws \<Rightarrow> ec2_instance \<Rightarrow> rat list" where
  "metric_series cw i =
     (case get_metric_statistics cw (InstanceId i) of Inl e \<Rightarrow> [] | Inr dps \<Rightarrow> dps)"

definition low_utilization :: "aws \<Rightarrow> ec2_instance \<Rightarrow> bool" where
  "low_utilization cw i = (metric_series cw i \<noteq> [] \<and> average cw (metric_series cw i) < 10)"

definition high_utilization :: "aws \<Rightarrow> ec2_instance \<Rightarrow> bool" where
  "high_utilization cw i = (metric_series cw i \<noteq> [] \<and> 80 < average cw (metric_series cw i))"

definition instance_findings :: "aws \<Rightarrow> ec2_instance \<Rightarrow> string list" where
  "instance_findings cw i =
     (if low_utilization cw i
      then [''Instance '' @ InstanceId i @ '' ('' @ InstanceType i
              @ '') has low CPU utilization: '' @ fmt1 (average cw (metric_series cw i)) @ ''%'']
      else if high_utilization cw i
      then [''Instance '' @ InstanceId i @ '' ('' @ InstanceType i
              @ '') has high CPU utilization: '' @ fmt1 (average cw (metric_series cw i)) @ ''%'']
      else [])"

definition instance_recommendations :: "aws \<Rightarrow> ec2_instance \<Rightarrow> string list" where
  "instance_recommendations cw i =
     (if low_utilization cw i
      then [''Consider downsizing '' @ InstanceId i @ '' or using Spot instances'']
      else if high_utilization cw i
      then [''Consider upsizing '' @ InstanceId i @ '' or adding more instances'']
      else [])"

definition instance_savings :: "aws \<Rightarrow> ec2_instance \<Rightarrow> int" where
  "instance_savings cw i =
     (if low_utilization cw i \<and> startswith (InstanceType i) ''t3.'' then 20 else 0)"

definition all_instances :: "reservation list \<Rightarrow> ec2_instance list" where
  "all_instances rs = concat (map Instances rs)"

section \<open>Properties of the cost optimizer\<close>

subsection \<open>The cost-anomaly check\<close>

lemma identify_cost_anomalies_eq:
  "identify_cost_anomalies cw p e =
     \<lparr>category = ''Cost Anomaly Detection'',
      findings = ''Simulated cost analysis complete''
        # (if utcnow_hour cw < 8 \<or> 18 < utcnow_hour cw
           then [''Running outside business hours - opportunity for shutdown''] else []),
      recommendations =
        [''Review AWS Cost Explorer for detailed cost breakdown'',
         ''Set up AWS Budgets for proactive cost monitoring'',
         ''Consider Reserved Instances for predictable workloads''],
      potential_savings = (if utcnow_hour cw < 8 \<or> 18 < utcnow_hour cw then 25 else 0)\<rparr>"
  by (simp add: identify_cost_anomalies_def new_optimization_def add_finding_def
      add_recommendation_def add_savings_def Let_def)

text \<open>
  Claim C4. The cost-anomaly check reads the hour of the day in UTC. When the hour lies
  outside the window of the hours 8 to 18 (below 8 or above 18) the check emits the
  off-hours shutdown finding and adds exactly 25 to the potential savings; when the hour
  lies inside the window, bounds included, it emits neither: the only finding is the
  one of the simulated analysis and the savings are 0.
\<close>

theorem cost_anomaly_off_hours:
  "(utcnow_hour cw \<notin> {8..18} \<longrightarrow>
      findings (identify_cost_anomalies cw p e) =
        [''Simulated cost analysis complete'',
         ''Running outside business hours - opportunity for shutdown''] \<and>
      potential_savings (identify_cost_anomalies cw p e) = 25) \<and>
   (utcnow_hour cw \<in> {8..18} \<longrightarrow>
      findings (identify_cost_anomalies cw p e) = [''Simulated cost analysis complete''] \<and>
      potential_savings (identify_cost_anomalies cw p e) = 0)"
  by (auto simp: identify_cost_anomalies_eq)

theorem cost_anomaly_off_hours_witness:
  "findings (identify_cost_anomalies (quiet_account\<lparr>utcnow_hour := 19\<rparr>) ''shop'' ''dev'') =
     [''Simulated cost analysis complete'',
      ''Running outside business hours - opportunity for shutdown''] \<and>
   potential_savings (identify_cost_anomalies (quiet_account\<lparr>utcnow_hour := 19\<rparr>) ''shop'' ''dev'') = 25 \<and>
   findings (identify_cost_anomalies (quiet_account\<lparr>utcnow_hour := 18\<rparr>) ''shop'' ''dev'') =
     [''Simulated cost analysis complete''] \<and>
   potential_savings (identify_cost_anomalies (quiet_account\<lparr>utcnow_hour := 18\<rparr>) ''shop'' ''dev'') = 0"
  using cost_anomaly_off_hours [of "quiet_account\<lparr>utcnow_hour := 19\<rparr>" "''shop''" "''dev''"]
    cost_anomaly_off_hours [of "quiet_account\<lparr>utcnow_hour := 18\<rparr>" "''shop''" "''dev''"]
  by (simp add: quiet_account_def)

section \<open>Properties of the health validators\<close>

lemma add_warning_simps [simp]:
  "status (add_warning w h) = status h" "issues (add_warning w h) = issues h"
  "warnings (add_warning w h) = warnings h @ [w]"
  by (simp_all add: add_warning_def)

lemma vpc_subnets_loop_keeps:
  "status (snd (vpc_subnets_loop sns (m, h))) = status h \<and>
   issues (snd (vpc_subnets_loop sns (m, h))) = issues h"
  by (induction sns arbitrary: m h) (simp_all add: Let_def)

lemma expected_types_loop_keeps:
  "status (expected_types_loop ts m h) = status h \<and>
   issues (expected_types_loop ts m h) = issues h"
  by (induction ts arbitrary: h) simp_all

lemma validate_vpc_health_status:
  "status (validate_vpc_health v) =
     (if vpc_state v = Some ''available'' then ''healthy'' else ''unhealthy'')"
  "issues (validate_vpc_health v) =
     (if vpc_state v = Some ''available'' then []
      else [''VPC state is '' @ str_opt (vpc_state v) @ '', expected '' @ [CHR 0x27]
              @ ''available'' @ [CHR 0x27]])"
proof -
  define h0 where "h0 =
    (if vpc_state v \<noteq> Some ''available''
     then new_health\<lparr>issues := issues new_health
               @ [''VPC state is '' @ str_opt (vpc_state v)
                    @ '', expected '' @ [CHR 0x27] @ ''available'' @ [CHR 0x27]],
             status := ''unhealthy''\<rparr>
     else new_health)"
  obtain m h where loop: "vpc_subnets_loop (subnets v) (Map.empty, h0) = (m, h)"
    by (cases "vpc_subnets_loop (subnets v) (Map.empty, h0)")
  have keep: "status h = status h0" "issues h = issues h0"
    using vpc_subnets_loop_keeps [of "subnets v" Map.empty h0] loop by simp_all
  have res: "validate_vpc_health v = expected_types_loop [''public'', ''private''] m h"
    using loop by (simp add: validate_vpc_health_def Let_def h0_def)
  show "status (validate_vpc_health v) =
     (if vpc_state v = Some ''available'' then ''healthy'' else ''unhealthy'')"
    unfolding res using expected_types_loop_keeps [of "[''public'', ''private'']" m h] keep
    by (simp add: h0_def new_health_def)
  show "issues (validate_vpc_health v) =
     (if vpc_state v = Some ''available'' then []
      else [''VPC state is '' @ str_opt (vpc_state v) @ '', expected '' @ [CHR 0x27]
              @ ''available'' @ [CHR 0x27]])"
    unfolding res using expected_types_loop_keeps [of "[''public'', ''private'']" m h] keep
    by (simp add: h0_def new_health_def)
qed

lemma asg_warnings_keeps:
  "status (asg_warnings w g h) = status h \<and> issues (asg_warnings w g h) = issues h"
  by (simp add: asg_warnings_def Let_def)

lemma asg_health_loop_keeps:
  "status (asg_health_loop w gs h) = status h \<and> issues (asg_health_loop w gs h) = issues h"
  by (induction gs arbitrary: h) (simp_all add: asg_warnings_keeps)

lemma validate_asg_health_status:
  "status (validate_asg_health a w) =
     (if auto_scaling_groups a = [] then ''unhealthy'' else ''healthy'')"
  "issues (validate_asg_health a w) =
     (if auto_scaling_groups a = [] then [''No Auto Scaling Groups found for this workspace'']
      else [])"
  by (simp_all add: validate_asg_health_def new_health_def Let_def asg_health_loop_keeps)

lemma validate_s3_health_status:
  "status (validate_s3_health b) = (if exists b then ''healthy'' else ''unhealthy'')"
  "issues (validate_s3_health b) = (if exists b then [] else [''S3 bucket does not exist''])"
  by (simp_all add: validate_s3_health_def new_health_def Let_def)

text \<open>
  Claim C2. For each of the three health validators (network, autoscaling, storage) and
  every snapshot, the list of issues of the verdict is non-empty exactly when the status
  is \<open>unhealthy\<close>, and empty exactly when it is \<open>healthy\<close>: the status is a function of the
  issues alone. What only produces warnings does not touch it: replacing the subnets of
  a network snapshot, the workspace tier of the autoscaling validator or the encryption
  field of a bucket snapshot leaves the status as it was.
\<close>

theorem health_status_iff_issues:
  "(issues (validate_vpc_health v) \<noteq> [] \<longleftrightarrow> status (validate_vpc_health v) = ''unhealthy'') \<and>
   (issues (validate_asg_health a w) \<noteq> [] \<longleftrightarrow> status (validate_asg_health a w) = ''unhealthy'') \<and>
   (issues (validate_s3_health b) \<noteq> [] \<longleftrightarrow> status (validate_s3_health b) = ''unhealthy'') \<and>
   (issues (validate_vpc_health v) = [] \<longleftrightarrow> status (validate_vpc_health v) = ''healthy'') \<and>
   (issues (validate_asg_health a w) = [] \<longleftrightarrow> status (validate_asg_health a w) = ''healthy'') \<and>
   (issues (validate_s3_health b) = [] \<longleftrightarrow> status (validate_s3_health b) = ''healthy'') \<and>
   status (validate_vpc_health (v\<lparr>subnets := sns\<rparr>)) = status (validate_vpc_health v) \<and>
   status (validate_asg_health a w') = status (validate_asg_health a w) \<and>
   status (validate_s3_health (b\<lparr>encryption := enc\<rparr>)) = status (validate_s3_health b)"
  by (simp add: validate_vpc_health_status validate_asg_health_status validate_s3_health_status)

theorem health_status_iff_issues_witness:
  "issues (validate_vpc_health pending_vpc) \<noteq> [] \<and>
   status (validate_vpc_health pending_vpc) = ''unhealthy'' \<and>
   warnings (validate_vpc_health pending_vpc) =
     [''Subnet subnet-1 has low available IPs: 3'', ''No private subnets found''] \<and>
   status (validate_vpc_health (pending_vpc\<lparr>subnets := []\<rparr>)) = ''unhealthy'' \<and>
   issues (validate_asg_health single_group_info ''prod'') = [] \<and>
   status (validate_asg_health single_group_info ''prod'') = ''healthy'' \<and>
   status (validate_asg_health single_group_info ''dev'') = ''healthy'' \<and>
   issues (validate_s3_health missing_bucket) \<noteq> [] \<and>
   status (validate_s3_health missing_bucket) = ''unhealthy'' \<and>
   status (validate_s3_health (missing_bucket\<lparr>encryption := ''Enabled''\<rparr>)) = ''unhealthy''"
proof -
  have w: "warnings (validate_vpc_health pending_vpc) =
     [''Subnet subnet-1 has low available IPs: 3'', ''No private subnets found'']"
    by (simp add: validate_vpc_health_def pending_vpc_def new_health_def Let_def
        add_warning_def str_int_def str_nat.simps digit_def)
  have i: "issues (validate_vpc_health pending_vpc) \<noteq> []"
    by (simp add: validate_vpc_health_status pending_vpc_def)
  have a: "issues (validate_asg_health single_group_info ''prod'') = []"
    by (simp add: validate_asg_health_status single_group_info_def)
  have s: "issues (validate_s3_health missing_bucket) \<noteq> []"
    by (simp add: validate_s3_health_status missing_bucket_def)
  show ?thesis
    using health_status_iff_issues
      [of pending_vpc single_group_info "''prod''" missing_bucket "[]" "''dev''" "''Enabled''"]
      w i a s
    by simp
qed

text \<open>
  Claim C8. For a snapshot whose bucket does not exist, the storage validator returns
  the status \<open>unhealthy\<close> with the single issue that the bucket does not exist and no
  warning, whatever the encryption field says; the warning about disabled encryption
  is in the verdict exactly when the bucket exists and its encryption field is
  \<open>Disabled\<close>.
\<close>

theorem s3_health_missing_bucket:
  "(\<not> exists b \<longrightarrow>
      validate_s3_health b =
        \<lparr>status = ''unhealthy'', issues = [''S3 bucket does not exist''], warnings = []\<rparr>) \<and>
   (''S3 bucket encryption is disabled'' \<in> set (warnings (validate_s3_health b))
      \<longleftrightarrow> exists b \<and> encryption b = ''Disabled'')"
  by (simp add: validate_s3_health_def new_health_def Let_def)

theorem s3_health_missing_bucket_witness:
  "\<not> exists missing_bucket \<and> encryption missing_bucket = ''Disabled'' \<and>
   validate_s3_health missing_bucket =
     \<lparr>status = ''unhealthy'', issues = [''S3 bucket does not exist''], warnings = []\<rparr> \<and>
   ''S3 bucket encryption is disabled'' \<notin> set (warnings (validate_s3_health missing_bucket)) \<and>
   ''S3 bucket encryption is disabled''
     \<in> set (warnings (validate_s3_health (missing_bucket\<lparr>exists := True\<rparr>)))"
  using s3_health_missing_bucket [of missing_bucket]
    s3_health_missing_bucket [of "missing_bucket\<lparr>exists := True\<rparr>"]
  by (simp add: missing_bucket_def)

text \<open>
  Claim C9. In the workspace \<open>prod\<close>, for a snapshot of exactly one group whose minimum
  size is 1, that spans one availability zone and whose healthy, current and desired
  instance counts are equal, the autoscaling validator returns the status \<open>healthy\<close>, no
  issue and exactly two warnings: the one about the minimum size below 2 and the one
  about spanning fewer than two zones, in this order.
\<close>

theorem prod_asg_two_warnings:
  assumes "auto_scaling_groups info = [g]"
    and "min_size g = 1"
    and "length (availability_zones g) = 1"
    and "healthy_instances g = current_instances g"
    and "current_instances g = desired_capacity g"
  shows "validate_asg_health info ''prod'' =
     \<lparr>status = ''healthy'', issues = [],
      warnings = [''Production ASG '' @ asg_name g @ '' should have min_size >= 2 for HA'',
                  ''Production ASG '' @ asg_name g @ '' should span multiple AZs'']\<rparr>"
  using assms
  by (simp add: validate_asg_health_def new_health_def Let_def asg_warnings_def add_warning_def)

theorem prod_asg_two_warnings_witness:
  "validate_asg_health single_group_info ''prod'' =
     \<lparr>status = ''healthy'', issues = [],
      warnings = [''Production ASG web should have min_size >= 2 for HA'',
                  ''Production ASG web should span multiple AZs'']\<rparr>"
  using prod_asg_two_warnings [of single_group_info single_group]
  by (simp add: single_group_info_def single_group_def)

section \<open>Properties of the utilization check\<close>

lemmas finding_set_ops = new_optimization_def add_finding_def add_recommendation_def add_savings_def

lemmas instance_rules = instance_findings_def instance_recommendations_def instance_savings_def
  low_utilization_def high_utilization_def metric_series_def

lemma utilization_of_instance_quiet:
  "quiet_series cw dps \<Longrightarrow> utilization_of_instance cw i dps opt = opt"
  by (auto simp: utilization_of_instance_def Let_def quiet_series_def)

lemma utilization_instances_quiet:
  "\<forall>i\<in>set is. \<exists>dps. get_metric_statistics cw (InstanceId i) = Inr dps \<and> quiet_series cw dps
   \<Longrightarrow> utilization_instances cw is opt = Inr opt"
  by (induction "is") (auto simp: utilization_of_instance_quiet)

lemma utilization_reservations_quiet:
  "\<forall>r\<in>set rs. \<forall>i\<in>set (Instances r).
      \<exists>dps. get_metric_statistics cw (InstanceId i) = Inr dps \<and> quiet_series cw dps
   \<Longrightarrow> utilization_reservations cw rs opt = Inr opt"
  by (induction rs) (simp_all add: utilization_instances_quiet)

text \<open>The loop body does to the finding set what the rules say of the instance.\<close>

lemma utilization_of_instance_rules:
  "get_metric_statistics cw (InstanceId i) = Inr dps \<Longrightarrow>
   utilization_of_instance cw i dps opt =
     opt\<lparr>findings := findings opt @ instance_findings cw i,
         recommendations := recommendations opt @ instance_recommendations cw i,
         potential_savings := potential_savings opt + instance_savings cw i\<rparr>"
  by (simp add: utilization_of_instance_def Let_def instance_rules finding_set_ops)

lemma utilization_instances_rules:
  "\<forall>i\<in>set is. \<exists>dps. get_metric_statistics cw (InstanceId i) = Inr dps \<Longrightarrow>
   utilization_instances cw is opt =
     Inr (opt\<lparr>findings := findings opt @ concat (map (instance_findings cw) is),
              recommendations := recommendations opt @ concat (map (instance_recommendations cw) is),
              potential_savings := potential_savings opt + sum_list (map (instance_savings cw) is)\<rparr>)"
proof (induction "is" arbitrary: opt)
  case Nil
  then show ?case by simp
next
  case (Cons i "is")
  then obtain dps where d: "get_metric_statistics cw (InstanceId i) = Inr dps"
    by auto
  have rest: "\<forall>i\<in>set is. \<exists>dps. get_metric_statistics cw (InstanceId i) = Inr dps"
    using Cons.prems by simp
  show ?case
    by (simp add: d Cons.IH [OF rest] utilization_of_instance_rules [OF d])
qed

lemma utilization_reservations_rules:
  "\<forall>i\<in>set (all_instances rs). \<exists>dps. get_metric_statistics cw (InstanceId i) = Inr dps \<Longrightarrow>
   utilization_reservations cw rs opt =
     Inr (opt\<lparr>findings := findings opt @ concat (map (instance_findings cw) (all_instances rs)),
              recommendations := recommendations opt
                @ concat (map (instance_recommendations cw) (all_instances rs)),
              potential_savings := potential_savings opt
                + sum_list (map (instance_savings cw) (all_instances rs))\<rparr>)"
proof (induction rs arbitrary: opt)
  case Nil
  then show ?case by (simp add: all_instances_def)
next
  case (Cons r rs)
  have here: "\<forall>i\<in>set (Instances r). \<exists>dps. get_metric_statistics cw (InstanceId i) = Inr dps"
    using Cons.prems by (simp add: all_instances_def)
  have rest: "\<forall>i\<in>set (all_instances rs). \<exists>dps. get_metric_statistics cw (InstanceId i) = Inr dps"
    using Cons.prems by (simp add: all_instances_def)
  show ?case
    by (simp add: utilization_instances_rules [OF here] Cons.IH [OF rest] all_instances_def)
qed

text \<open>
  Claim C3. In the utilization check, the average of an instance is the float that the
  check computes from the datapoints of its CPU metric, their sum divided by their
  number. For each running instance: an empty metric series leaves the finding set as
  it was; an average below 10 adds the low-utilization finding and the recommendation
  to downsize or use Spot instances, and adds 20 to the potential savings exactly when
  the instance type starts with \<open>t3.\<close>; an average above 80 adds the high-utilization
  finding and the recommendation to upsize, and no savings; an average from 10 to 80,
  such as 50, leaves the finding set as it was. The check applies these rules to every
  instance of the listing, in order: when the listing and every metric call return, its
  findings, recommendations and savings are those of the instances, one after the
  other, and when no instance has a finding, the check returns exactly one finding, the
  one saying that all instances have appropriate utilization levels, no recommendation
  and no savings.
\<close>

theorem utilization_rules:
  "utilization_of_instance cw i [] opt = opt \<and>
   (dps \<noteq> [] \<and> average cw dps < 10 \<longrightarrow>
      utilization_of_instance cw i dps opt =
        opt\<lparr>findings := findings opt
               @ [''Instance '' @ InstanceId i @ '' ('' @ InstanceType i
                    @ '') has low CPU utilization: '' @ fmt1 (average cw dps) @ ''%''],
            recommendations := recommendations opt
               @ [''Consider downsizing '' @ InstanceId i @ '' or using Spot instances''],
            potential_savings := potential_savings opt
               + (if startswith (InstanceType i) ''t3.'' then 20 else 0)\<rparr>) \<and>
   (dps \<noteq> [] \<and> 80 < average cw dps \<longrightarrow>
      utilization_of_instance cw i dps opt =
        opt\<lparr>findings := findings opt
               @ [''Instance '' @ InstanceId i @ '' ('' @ InstanceType i
                    @ '') has high CPU utilization: '' @ fmt1 (average cw dps) @ ''%''],
            recommendations := recommendations opt
               @ [''Consider upsizing '' @ InstanceId i @ '' or adding more instances'']\<rparr>) \<and>
   (dps \<noteq> [] \<and> 10 \<le> average cw dps \<and> average cw dps \<le> 80 \<longrightarrow>
      utilization_of_instance cw i dps opt = opt) \<and>
   (describe_instances ec2 (utilization_filters p e) = Inr rs \<and>
    (\<forall>i\<in>set (all_instances rs). \<exists>dps. get_metric_statistics cw (InstanceId i) = Inr dps) \<longrightarrow>
      check_instance_utilization ec2 cw p e =
        \<lparr>category = ''EC2 Instance Utilization'',
         findings =
           (if concat (map (instance_findings cw) (all_instances rs)) = []
            then [''All instances have appropriate utilization levels'']
            else concat (map (instance_findings cw) (all_instances rs))),
         recommendations = concat (map (instance_recommendations cw) (all_instances rs)),
         potential_savings = sum_list (map (instance_savings cw) (all_instances rs))\<rparr>) \<and>
   (describe_instances ec2 (utilization_filters p e) = Inr rs \<and>
    (\<forall>r\<in>set rs. \<forall>i\<in>set (Instances r).
       \<exists>dps. get_metric_statistics cw (InstanceId i) = Inr dps \<and>
             (dps = [] \<or> (10 \<le> average cw dps \<and> average cw dps \<le> 80))) \<longrightarrow>
      check_instance_utilization ec2 cw p e =
        \<lparr>category = ''EC2 Instance Utilization'',
         findings = [''All instances have appropriate utilization levels''],
         recommendations = [], potential_savings = 0\<rparr>)"
proof (intro conjI impI)
  show "utilization_of_instance cw i [] opt = opt"
    by (simp add: utilization_of_instance_def)
next
  assume "dps \<noteq> [] \<and> average cw dps < 10"
  then show "utilization_of_instance cw i dps opt =
        opt\<lparr>findings := findings opt
               @ [''Instance '' @ InstanceId i @ '' ('' @ InstanceType i
                    @ '') has low CPU utilization: '' @ fmt1 (average cw dps) @ ''%''],
            recommendations := recommendations opt
               @ [''Consider downsizing '' @ InstanceId i @ '' or using Spot instances''],
            potential_savings := potential_savings opt
               + (if startswith (InstanceType i) ''t3.'' then 20 else 0)\<rparr>"
    by (simp add: utilization_of_instance_def Let_def finding_set_ops)
next
  assume "dps \<noteq> [] \<and> 80 < average cw dps"
  then show "utilization_of_instance cw i dps opt =
        opt\<lparr>findings := findings opt
               @ [''Instance '' @ InstanceId i @ '' ('' @ InstanceType i
                    @ '') has high CPU utilization: '' @ fmt1 (average cw dps) @ ''%''],
            recommendations := recommendations opt
               @ [''Consider upsizing '' @ InstanceId i @ '' or adding more instances'']\<rparr>"
    by (simp add: utilization_of_instance_def Let_def finding_set_ops)
next
  assume "dps \<noteq> [] \<and> 10 \<le> average cw dps \<and> average cw dps \<le> 80"
  then show "utilization_of_instance cw i dps opt = opt"
    by (simp add: utilization_of_instance_def Let_def)
next
  assume a: "describe_instances ec2 (utilization_filters p e) = Inr rs \<and>
    (\<forall>i\<in>set (all_instances rs). \<exists>dps. get_metric_statistics cw (InstanceId i) = Inr dps)"
  then have loop: "utilization_reservations cw rs (new_optimization ''EC2 Instance Utilization'') =
     Inr ((new_optimization ''EC2 Instance Utilization'')
            \<lparr>findings := findings (new_optimization ''EC2 Instance Utilization'')
                 @ concat (map (instance_findings cw) (all_instances rs)),
              recommendations := recommendations (new_optimization ''EC2 Instance Utilization'')
                @ concat (map (instance_recommendations cw) (all_instances rs)),
              potential_savings := potential_savings (new_optimization ''EC2 Instance Utilization'')
                + sum_list (map (instance_savings cw) (all_instances rs))\<rparr>)"
    by (intro utilization_reservations_rules) simp
  from a show "check_instance_utilization ec2 cw p e =
        \<lparr>category = ''EC2 Instance Utilization'',
         findings =
           (if concat (map (instance_findings cw) (all_instances rs)) = []
            then [''All instances have appropriate utilization levels'']
            else concat (map (instance_findings cw) (all_instances rs))),
         recommendations = concat (map (instance_recommendations cw) (all_instances rs)),
         potential_savings = sum_list (map (instance_savings cw) (all_instances rs))\<rparr>"
    by (simp add: check_instance_utilization_def check_instance_utilization_try_def
        loop [unfolded finding_set_ops] finding_set_ops)
next
  assume a: "describe_instances ec2 (utilization_filters p e) = Inr rs \<and>
    (\<forall>r\<in>set rs. \<forall>i\<in>set (Instances r).
       \<exists>dps. get_metric_statistics cw (InstanceId i) = Inr dps \<and>
             (dps = [] \<or> (10 \<le> average cw dps \<and> average cw dps \<le> 80)))"
  then have "utilization_reservations cw rs (new_optimization ''EC2 Instance Utilization'')
      = Inr (new_optimization ''EC2 Instance Utilization'')"
    by (intro utilization_reservations_quiet) (simp add: quiet_series_def)
  with a show "check_instance_utilization ec2 cw p e =
        \<lparr>category = ''EC2 Instance Utilization'',
         findings = [''All instances have appropriate utilization levels''],
         recommendations = [], potential_savings = 0\<rparr>"
    by (simp add: check_instance_utilization_def check_instance_utilization_try_def
        finding_set_ops)
qed

lemmas show_simps = fmt1_def round_half_even_def str_int_def str_nat.simps digit_def Let_def

lemmas fleet_defs = small_idle_def large_idle_def busy_def steady_def silent_def
  fleet_account_def steady_account_def quiet_account_def fleet_metrics_def

theorem utilization_rules_witness:
  "utilization_of_instance fleet_account silent [] (new_optimization ''c'') = new_optimization ''c'' \<and>
   utilization_of_instance fleet_account small_idle [5] (new_optimization ''c'') =
     \<lparr>category = ''c'',
      findings = [''Instance i-small (t3.micro) has low CPU utilization: 5.0%''],
      recommendations = [''Consider downsizing i-small or using Spot instances''],
      potential_savings = 20\<rparr> \<and>
   utilization_of_instance fleet_account large_idle [4, 6] (new_optimization ''c'') =
     \<lparr>category = ''c'',
      findings = [''Instance i-large (m5.large) has low CPU utilization: 5.0%''],
      recommendations = [''Consider downsizing i-large or using Spot instances''],
      potential_savings = 0\<rparr> \<and>
   utilization_of_instance fleet_account busy [85] (new_optimization ''c'') =
     \<lparr>category = ''c'',
      findings = [''Instance i-busy (t3.small) has high CPU utilization: 85.0%''],
      recommendations = [''Consider upsizing i-busy or adding more instances''],
      potential_savings = 0\<rparr> \<and>
   utilization_of_instance fleet_account steady [50] (new_optimization ''c'') = new_optimization ''c'' \<and>
   check_instance_utilization fleet_account fleet_account ''shop'' ''dev'' =
     \<lparr>category = ''EC2 Instance Utilization'',
      findings = [''Instance i-small (t3.micro) has low CPU utilization: 5.0%'',
                  ''Instance i-large (m5.large) has low CPU utilization: 5.0%'',
                  ''Instance i-busy (t3.small) has high CPU utilization: 85.0%''],
      recommendations = [''Consider downsizing i-small or using Spot instances'',
                         ''Consider downsizing i-large or using Spot instances'',
                         ''Consider upsizing i-busy or adding more instances''],
      potential_savings = 20\<rparr> \<and>
   check_instance_utilization steady_account steady_account ''shop'' ''dev'' =
     \<lparr>category = ''EC2 Instance Utilization'',
      findings = [''All instances have appropriate utilization levels''],
      recommendations = [], potential_savings = 0\<rparr>"
proof -
  have fleet: "describe_instances fleet_account (utilization_filters ''shop'' ''dev'') =
      Inr [\<lparr>Instances = [small_idle, large_idle]\<rparr>, \<lparr>Instances = [busy, steady, silent]\<rparr>]"
    by (simp add: fleet_account_def quiet_account_def)
  have calls: "\<forall>i\<in>set (all_instances
        [\<lparr>Instances = [small_idle, large_idle]\<rparr>, \<lparr>Instances = [busy, steady, silent]\<rparr>]).
      \<exists>dps. get_metric_statistics fleet_account (InstanceId i) = Inr dps"
    by (simp add: all_instances_def fleet_defs)
  have whole: "check_instance_utilization fleet_account fleet_account ''shop'' ''dev'' =
     \<lparr>category = ''EC2 Instance Utilization'',
      findings = [''Instance i-small (t3.micro) has low CPU utilization: 5.0%'',
                  ''Instance i-large (m5.large) has low CPU utilization: 5.0%'',
                  ''Instance i-busy (t3.small) has high CPU utilization: 85.0%''],
      recommendations = [''Consider downsizing i-small or using Spot instances'',
                         ''Consider downsizing i-large or using Spot instances'',
                         ''Consider upsizing i-busy or adding more instances''],
      potential_savings = 20\<rparr>"
    using utilization_rules [of fleet_account silent "new_optimization ''c''" "[5]" fleet_account
        "''shop''" "''dev''"
        "[\<lparr>Instances = [small_idle, large_idle]\<rparr>, \<lparr>Instances = [busy, steady, silent]\<rparr>]"]
      fleet calls
    by (simp add: all_instances_def instance_rules fleet_defs average_def startswith_def show_simps)
  show ?thesis
    using utilization_rules [of fleet_account silent "new_optimization ''c''" "[5]" _ _ _ "[]"]
      utilization_rules [of fleet_account small_idle "new_optimization ''c''" "[5]" _ _ _ "[]"]
      utilization_rules [of fleet_account large_idle "new_optimization ''c''" "[4, 6]" _ _ _ "[]"]
      utilization_rules [of fleet_account busy "new_optimization ''c''" "[85]" _ _ _ "[]"]
      utilization_rules [of fleet_account steady "new_optimization ''c''" "[50]" _ _ _ "[]"]
      utilization_rules [of steady_account steady "new_optimization ''c''" "[50]" steady_account
        "''shop''" "''dev''" "[\<lparr>Instances = [steady]\<rparr>, \<lparr>Instances = [silent]\<rparr>]"]
      whole
    by (simp add: fleet_defs finding_set_ops average_def startswith_def show_simps
        all_instances_def instance_rules)
qed

section \<open>Properties of the check modules\<close>

lemma grows_refl [simp]: "grows opt opt"
  by (simp add: grows_def)

lemma grows_trans: "grows a b \<Longrightarrow> grows b c \<Longrightarrow> grows a c"
  by (auto simp: grows_def)

lemma grows_add_finding [simp]: "grows opt (add_finding s opt)"
  by (simp add: grows_def add_finding_def)

lemma utilization_of_instance_grows: "grows opt (utilization_of_instance cw i dps opt)"
  by (simp add: utilization_of_instance_def Let_def grows_def finding_set_ops)

lemma utilization_instances_grows:
  "grows opt (final_state (utilization_instances cw is opt))"
proof (induction "is" arbitrary: opt)
  case Nil
  then show ?case by (simp add: final_state_def)
next
  case (Cons i "is")
  show ?case
  proof (cases "get_metric_statistics cw (InstanceId i)")
    case (Inl e)
    then show ?thesis by (simp add: final_state_def)
  next
    case (Inr dps)
    then show ?thesis
      using Cons.IH [of "utilization_of_instance cw i dps opt"]
        utilization_of_instance_grows [of opt cw i dps]
      by (auto intro: grows_trans)
  qed
qed

lemma utilization_reservations_grows:
  "grows opt (final_state (utilization_reservations cw rs opt))"
proof (induction rs arbitrary: opt)
  case Nil
  then show ?case by (simp add: final_state_def)
next
  case (Cons r rs)
  show ?case
  proof (cases "utilization_instances cw (Instances r) opt")
    case (Inl x)
    then show ?thesis
      using utilization_instances_grows [of opt cw "Instances r"] by simp
  next
    case (Inr opt')
    then show ?thesis
      using Cons.IH [of opt'] utilization_instances_grows [of opt cw "Instances r"]
      by (auto simp: final_state_def intro: grows_trans)
  qed
qed

lemma check_instance_utilization_try_grows:
  "grows opt (final_state (check_instance_utilization_try ec2 cw p e opt))"
proof (cases "describe_instances ec2 (utilization_filters p e)")
  case (Inl x)
  then show ?thesis by (simp add: check_instance_utilization_try_def final_state_def)
next
  case (Inr rs)
  show ?thesis
  proof (cases "utilization_reservations cw rs opt")
    case (Inl x)
    then show ?thesis
      using Inr utilization_reservations_grows [of opt cw rs]
      by (simp add: check_instance_utilization_try_def)
  next
    case inr: (Inr opt')
    then show ?thesis
      using Inr utilization_reservations_grows [of opt cw rs]
      by (auto simp: check_instance_utilization_try_def final_state_def grows_def add_finding_def)
  qed
qed

lemma efficiency_of_asg_grows:
  "grows opt (final_state (efficiency_of_asg a p g opt))"
  by (auto simp: efficiency_of_asg_def Let_def final_state_def grows_def finding_set_ops
      split: sum.splits option.splits)

lemma efficiency_asgs_grows:
  "grows opt (final_state (efficiency_asgs a p gs opt))"
proof (induction gs arbitrary: opt)
  case Nil
  then show ?case by (simp add: final_state_def)
next
  case (Cons g gs)
  show ?case
  proof (cases "efficiency_of_asg a p g opt")
    case (Inl x)
    then show ?thesis using efficiency_of_asg_grows [of opt a p g] by simp
  next
    case (Inr opt')
    then show ?thesis
      using Cons.IH [of opt'] efficiency_of_asg_grows [of opt a p g]
      by (auto simp: final_state_def intro: grows_trans)
  qed
qed

lemma check_asg_efficiency_try_grows:
  "grows opt (final_state (check_asg_efficiency_try a p opt))"
proof (cases "describe_auto_scaling_groups a")
  case (Inl x)
  then show ?thesis by (simp add: check_asg_efficiency_try_def final_state_def)
next
  case (Inr gs)
  then show ?thesis
    using efficiency_asgs_grows [of opt a p gs] by (simp add: check_asg_efficiency_try_def)
qed

lemma lifecycle_configuration_grows:
  "grows opt (final_state (lifecycle_configuration s3 b opt))"
  by (simp add: lifecycle_configuration_def s3_exceptions_def final_state_def grows_def
      finding_set_ops split: sum.splits)

lemma storage_usage_grows: "grows opt (storage_usage s3 contents opt)"
  by (simp add: storage_usage_def Let_def grows_def finding_set_ops)

lemma optimize_s3_storage_try_grows:
  "grows opt (final_state (optimize_s3_storage_try s3 b opt))"
proof (cases "lifecycle_configuration s3 b opt")
  case (Inl x)
  then show ?thesis
    using lifecycle_configuration_grows [of opt s3 b] by (simp add: optimize_s3_storage_try_def)
next
  case (Inr opt')
  then have g: "grows opt opt'"
    using lifecycle_configuration_grows [of opt s3 b] by (simp add: final_state_def)
  show ?thesis
    using Inr g storage_usage_grows [of opt' s3]
    by (auto simp: optimize_s3_storage_try_def final_state_def
        split: sum.splits option.splits intro: grows_trans)
qed

lemma check_tagging_compliance_try_grows:
  "grows opt (final_state (check_tagging_compliance_try ec2 opt))"
  by (simp add: check_tagging_compliance_try_def final_state_def grows_def finding_set_ops Let_def
      split: sum.splits)

lemma caught_grows:
  "grows opt (case res of Inl (e, opt') \<Rightarrow> add_finding (f e) opt' | Inr opt' \<Rightarrow> opt')
     = grows opt (final_state res)"
  by (simp add: final_state_def grows_def add_finding_def split: sum.splits prod.splits)

lemma check_grows:
  "grows (new_optimization ''EC2 Instance Utilization'') (check_instance_utilization ec2 cw p e)"
  "grows (new_optimization ''Auto Scaling Group Efficiency'') (check_asg_efficiency asg cw p e)"
  "grows (new_optimization ''S3 Storage Optimization'') (optimize_s3_storage s3 b)"
  "grows (new_optimization ''Tagging Compliance'') (check_tagging_compliance ec2 s3' p e)"
  "grows (new_optimization ''Cost Anomaly Detection'') (identify_cost_anomalies cw p e)"
  unfolding check_instance_utilization_def check_asg_efficiency_def optimize_s3_storage_def
    check_tagging_compliance_def caught_grows
  by (simp_all add: check_instance_utilization_try_grows check_asg_efficiency_try_grows
      optimize_s3_storage_try_grows check_tagging_compliance_try_grows)
     (simp add: identify_cost_anomalies_eq grows_def new_optimization_def)

lemma check_category:
  "category (check_instance_utilization ec2 cw p e) = ''EC2 Instance Utilization''"
  "category (check_asg_efficiency asg cw p e) = ''Auto Scaling Group Efficiency''"
  "category (optimize_s3_storage s3 b) = ''S3 Storage Optimization''"
  "category (check_tagging_compliance ec2 s3' p e) = ''Tagging Compliance''"
  "category (identify_cost_anomalies cw p e) = ''Cost Anomaly Detection''"
  using check_grows(1) [of ec2 cw p e] check_grows(2) [of asg cw p e] check_grows(3) [of s3 b]
    check_grows(4) [of ec2 s3' p e] check_grows(5) [of cw p e]
  by (simp_all add: grows_def new_optimization_def)

lemma check_savings:
  "0 \<le> potential_savings (check_instance_utilization ec2 cw p e)"
  "0 \<le> potential_savings (check_asg_efficiency asg cw p e)"
  "0 \<le> potential_savings (optimize_s3_storage s3 b)"
  "0 \<le> potential_savings (check_tagging_compliance ec2 s3' p e)"
  "0 \<le> potential_savings (identify_cost_anomalies cw p e)"
  using check_grows(1) [of ec2 cw p e] check_grows(2) [of asg cw p e] check_grows(3) [of s3 b]
    check_grows(4) [of ec2 s3' p e] check_grows(5) [of cw p e]
  by (simp_all add: grows_def new_optimization_def)

text \<open>
  Claim C1. Each of the five check modules (instance utilization, ASG efficiency, S3
  storage, tagging compliance, cost anomaly) is a total function to finding sets: for
  every account, whatever its calls return or raise, the result carries the fixed
  category of the module. When the body of a module raises an exception \<open>x\<close>, having
  brought the finding set to \<open>opt\<close>, the module returns \<open>opt\<close> with one more finding, the
  module's error prefix followed by \<open>str(x)\<close>; nothing is raised to the caller.
\<close>

theorem checks_catch_exceptions:
  "category (check_instance_utilization ec2 cw p e) = ''EC2 Instance Utilization'' \<and>
   category (check_asg_efficiency asg cw p e) = ''Auto Scaling Group Efficiency'' \<and>
   category (optimize_s3_storage s3 b) = ''S3 Storage Optimization'' \<and>
   category (check_tagging_compliance ec2 s3 p e) = ''Tagging Compliance'' \<and>
   category (identify_cost_anomalies cw p e) = ''Cost Anomaly Detection'' \<and>
   (check_instance_utilization_try ec2 cw p e (new_optimization ''EC2 Instance Utilization'')
      = Inl (x1, opt1) \<longrightarrow>
    check_instance_utilization ec2 cw p e =
      opt1\<lparr>findings := findings opt1
              @ [''Error checking instance utilization: '' @ str_exn x1]\<rparr>) \<and>
   (check_asg_efficiency_try asg p (new_optimization ''Auto Scaling Group Efficiency'')
      = Inl (x2, opt2) \<longrightarrow>
    check_asg_efficiency asg cw p e =
      opt2\<lparr>findings := findings opt2 @ [''Error checking ASG efficiency: '' @ str_exn x2]\<rparr>) \<and>
   (optimize_s3_storage_try s3 b (new_optimization ''S3 Storage Optimization'')
      = Inl (x3, opt3) \<longrightarrow>
    optimize_s3_storage s3 b =
      opt3\<lparr>findings := findings opt3 @ [''Error analyzing S3 storage: '' @ str_exn x3]\<rparr>) \<and>
   (check_tagging_compliance_try ec2 (new_optimization ''Tagging Compliance'')
      = Inl (x4, opt4) \<longrightarrow>
    check_tagging_compliance ec2 s3 p e =
      opt4\<lparr>findings := findings opt4
              @ [''Error checking tagging compliance: '' @ str_exn x4]\<rparr>)"
proof -
  have "check_instance_utilization_try ec2 cw p e (new_optimization ''EC2 Instance Utilization'')
      = Inl (x1, opt1) \<longrightarrow>
    check_instance_utilization ec2 cw p e =
      opt1\<lparr>findings := findings opt1
              @ [''Error checking instance utilization: '' @ str_exn x1]\<rparr>"
    by (simp add: check_instance_utilization_def add_finding_def)
  moreover have "check_asg_efficiency_try asg p (new_optimization ''Auto Scaling Group Efficiency'')
      = Inl (x2, opt2) \<longrightarrow>
    check_asg_efficiency asg cw p e =
      opt2\<lparr>findings := findings opt2 @ [''Error checking ASG efficiency: '' @ str_exn x2]\<rparr>"
    by (simp add: check_asg_efficiency_def add_finding_def)
  moreover have "optimize_s3_storage_try s3 b (new_optimization ''S3 Storage Optimization'')
      = Inl (x3, opt3) \<longrightarrow>
    optimize_s3_storage s3 b =
      opt3\<lparr>findings := findings opt3 @ [''Error analyzing S3 storage: '' @ str_exn x3]\<rparr>"
    by (simp add: optimize_s3_storage_def add_finding_def)
  moreover have "check_tagging_compliance_try ec2 (new_optimization ''Tagging Compliance'')
      = Inl (x4, opt4) \<longrightarrow>
    check_tagging_compliance ec2 s3 p e =
      opt4\<lparr>findings := findings opt4
              @ [''Error checking tagging compliance: '' @ str_exn x4]\<rparr>"
    by (simp add: check_tagging_compliance_def add_finding_def)
  ultimately show ?thesis
    by (simp only: check_category)
qed

theorem checks_catch_exceptions_witness:
  "check_instance_utilization flaky_account flaky_account ''shop'' ''dev'' =
     \<lparr>category = ''EC2 Instance Utilization'',
      findings = [''Instance i-small (t3.micro) has low CPU utilization: 5.0%'',
                  ''Instance i-large (m5.large) has low CPU utilization: 5.0%'',
                  ''Error checking instance utilization: Throttling''],
      recommendations = [''Consider downsizing i-small or using Spot instances'',
                         ''Consider downsizing i-large or using Spot instances''],
      potential_savings = 20\<rparr> \<and>
   check_asg_efficiency denied_account denied_account ''shop'' ''dev'' =
     \<lparr>category = ''Auto Scaling Group Efficiency'',
      findings = [''Error checking ASG efficiency: Throttling''],
      recommendations = [], potential_savings = 0\<rparr> \<and>
   optimize_s3_storage denied_account ''assets'' =
     \<lparr>category = ''S3 Storage Optimization'',
      findings = [''Error analyzing S3 storage: ''
                    @ s3_exceptions_text ''NoSuchLifecycleConfiguration''],
      recommendations = [], potential_savings = 0\<rparr> \<and>
   check_tagging_compliance denied_account denied_account ''shop'' ''dev'' =
     \<lparr>category = ''Tagging Compliance'',
      findings = [''Error checking tagging compliance: AccessDenied''],
      recommendations = [], potential_savings = 0\<rparr>"
proof -
  have h1: "check_instance_utilization_try flaky_account flaky_account ''shop'' ''dev''
      (new_optimization ''EC2 Instance Utilization'') =
    Inl (ClientError ''Throttling'',
         \<lparr>category = ''EC2 Instance Utilization'',
          findings = [''Instance i-small (t3.micro) has low CPU utilization: 5.0%'',
                      ''Instance i-large (m5.large) has low CPU utilization: 5.0%''],
          recommendations = [''Consider downsizing i-small or using Spot instances'',
                             ''Consider downsizing i-large or using Spot instances''],
          potential_savings = 20\<rparr>)"
    by (simp add: check_instance_utilization_try_def flaky_account_def
        fleet_defs utilization_of_instance_def finding_set_ops average_def startswith_def
        show_simps)
  have h2: "check_asg_efficiency_try denied_account ''shop''
      (new_optimization ''Auto Scaling Group Efficiency'') =
    Inl (ClientError ''Throttling'', new_optimization ''Auto Scaling Group Efficiency'')"
    by (simp add: check_asg_efficiency_try_def denied_account_def quiet_account_def)
  have h3: "optimize_s3_storage_try denied_account ''assets''
      (new_optimization ''S3 Storage Optimization'') =
    Inl (AttributeError (s3_exceptions_text ''NoSuchLifecycleConfiguration''),
         new_optimization ''S3 Storage Optimization'')"
    by (simp add: optimize_s3_storage_try_def lifecycle_configuration_def s3_exceptions_def
        denied_account_def quiet_account_def)
  have h4: "check_tagging_compliance_try denied_account (new_optimization ''Tagging Compliance'') =
    Inl (ClientError ''AccessDenied'', new_optimization ''Tagging Compliance'')"
    by (simp add: check_tagging_compliance_try_def denied_account_def quiet_account_def)
  show ?thesis
    using checks_catch_exceptions [of flaky_account flaky_account "''shop''" "''dev''"
        denied_account denied_account "''assets''" _ _ _ _ _ _ _ _]
      checks_catch_exceptions [of denied_account denied_account "''shop''" "''dev''"
        denied_account denied_account "''assets''" _ _
        "ClientError ''Throttling''" "new_optimization ''Auto Scaling Group Efficiency''"
        "AttributeError (s3_exceptions_text ''NoSuchLifecycleConfiguration'')"
        "new_optimization ''S3 Storage Optimization''"
        "ClientError ''AccessDenied''" "new_optimization ''Tagging Compliance''"]
      h1 h2 h3 h4
    by (simp add: new_optimization_def)
qed

section \<open>Properties of the storage check\<close>

lemma count_old_objects_eq:
  "count_old_objects clock k xs n =
     n + int (length (filter (\<lambda>(j, obj). 30 < age_days (clock j) obj) (enumerate k xs)))"
  by (induction xs arbitrary: k n) simp_all

lemma count_old_objects_old_among:
  "count_old_objects clock 0 xs 0 = int (old_among clock xs)"
  by (simp add: count_old_objects_eq old_among_def)

lemma filter_enumerate_snd:
  "length (filter (\<lambda>(j, obj). P obj) (enumerate k xs)) = length (filter P xs)"
  by (induction xs arbitrary: k) simp_all

lemma old_among_const:
  "old_among (\<lambda>k. t) xs = length (filter (\<lambda>obj. 30 < age_days t obj) xs)"
  by (simp add: old_among_def filter_enumerate_snd)

lemma storage_usage_eq:
  "storage_usage s3 contents opt =
     opt\<lparr>findings := findings opt
            @ [''Bucket contains '' @ str_nat (length contents) @ '' objects, ''
                 @ fmt1 (float_div s3 (of_int (sum_list (map Size contents))) (1024 * 1024))
                 @ '' MB''],
          recommendations := recommendations opt
            @ (if 0 < old_among (now s3) contents
               then [str_int (int (old_among (now s3) contents))
                       @ '' objects are older than 30 days - verify lifecycle transitions'']
               else [])\<rparr>"
  by (simp add: storage_usage_def Let_def count_old_objects_old_among finding_set_ops)

text \<open>
  Whatever the lifecycle call raises, the lookup of the class in the \<open>except\<close> clause
  raises in its place: the branch of the recommendation and its 30 units is never taken,
  and the check ends with the error finding that carries the text of the lookup.
\<close>

lemma lifecycle_configuration_raises:
  "get_bucket_lifecycle_configuration s3 b = Inl x \<Longrightarrow>
   lifecycle_configuration s3 b opt =
     Inl (AttributeError (s3_exceptions_getattr s3 ''NoSuchLifecycleConfiguration''), opt)"
  by (simp add: lifecycle_configuration_def s3_exceptions_def)

lemma no_lifecycle_error_path:
  "get_bucket_lifecycle_configuration s3 b = Inl x \<Longrightarrow>
   optimize_s3_storage s3 b =
     \<lparr>category = ''S3 Storage Optimization'',
      findings = [''Error analyzing S3 storage: ''
                    @ s3_exceptions_getattr s3 ''NoSuchLifecycleConfiguration''],
      recommendations = [], potential_savings = 0\<rparr>"
  by (simp add: optimize_s3_storage_def optimize_s3_storage_try_def
      lifecycle_configuration_raises finding_set_ops)

lemma storage_savings_zero:
  "potential_savings (optimize_s3_storage s3 b) = 0"
  by (simp add: optimize_s3_storage_def optimize_s3_storage_try_def lifecycle_configuration_def
      s3_exceptions_def storage_usage_eq finding_set_ops split: sum.splits option.splits)

text \<open>
  Claim C5, at the input where it fails. The claim: when the bucket has no lifecycle
  configuration, the storage check produces the recommendation to add lifecycle
  policies and adds exactly 30 to the potential savings without entering the error
  path; and when the objects listed (at most the first 1000) include one older than 30
  days, the finding set contains the old-objects advisory citing the count among the
  objects listed. For the bucket of 1500 objects without lifecycle configuration the
  call raises the \<open>ClientError\<close> of the service; the \<open>except\<close> clause that is meant to catch
  it names a class the S3 client does not have, the lookup raises \<open>AttributeError\<close>, and
  the outer handler makes the error finding of it: the check returns no
  recommendation and no savings, and the objects are never listed.
\<close>

theorem storage_no_lifecycle_error_path:
  "get_bucket_lifecycle_configuration big_bucket_account ''assets'' =
     Inl (NoSuchLifecycleConfiguration ''The lifecycle configuration does not exist'') \<and>
   optimize_s3_storage big_bucket_account ''assets'' =
     \<lparr>category = ''S3 Storage Optimization'',
      findings = [''Error analyzing S3 storage: ''
                    @ s3_exceptions_text ''NoSuchLifecycleConfiguration''],
      recommendations = [], potential_savings = 0\<rparr>"
proof -
  have g: "get_bucket_lifecycle_configuration big_bucket_account ''assets'' =
     Inl (NoSuchLifecycleConfiguration ''The lifecycle configuration does not exist'')"
    by (simp add: big_bucket_account_def quiet_account_def)
  have t: "s3_exceptions_getattr big_bucket_account = s3_exceptions_text"
    by (simp add: big_bucket_account_def quiet_account_def)
  show ?thesis
    using g no_lifecycle_error_path [OF g] by (simp add: t)
qed

text \<open>
  The second half of the claim holds where the lifecycle call returns: the check lists
  at most 1000 objects, and when one of those listed is older than 30 days, the advisory
  among the recommendations cites the number of old objects among those listed.
\<close>

lemma old_objects_advisory:
  assumes "get_bucket_lifecycle_configuration s3 b = Inr rules"
    and "list_objects_v2 s3 b 1000 = Inr (Some contents)"
    and "0 < old_among (now s3) contents"
  shows "str_int (int (old_among (now s3) contents))
          @ '' objects are older than 30 days - verify lifecycle transitions''
        \<in> set (recommendations (optimize_s3_storage s3 b))"
  using assms
  by (simp add: optimize_s3_storage_def optimize_s3_storage_try_def lifecycle_configuration_def
      storage_usage_eq finding_set_ops)

lemma big_bucket_sample:
  "take 1000 big_bucket = replicate 40 old_object @ replicate 960 fresh_object"
  by (simp add: big_bucket_def)

lemma big_bucket_old:
  "old_among (\<lambda>k. 8640000000000) (take 1000 big_bucket) = 40"
  "old_among (\<lambda>k. 8640000000000) big_bucket = 540"
  by (simp_all add: big_bucket_sample old_among_const)
     (simp_all add: big_bucket_def age_days_def old_object_def fresh_object_def)

text \<open>The same bucket once it has a lifecycle configuration of one rule.\<close>

lemma big_bucket_storage:
  "optimize_s3_storage
     (big_bucket_account\<lparr>get_bucket_lifecycle_configuration := (\<lambda>bucket. Inr [''expire''])\<rparr>)
     ''assets'' =
     \<lparr>category = ''S3 Storage Optimization'',
      findings = [''Bucket assets has 1 lifecycle rules'',
                  ''Bucket contains 1000 objects, 1000.0 MB''],
      recommendations = [''40 objects are older than 30 days - verify lifecycle transitions''],
      potential_savings = 0\<rparr>"
proof -
  have sz: "sum_list (map Size (take 1000 big_bucket)) = 1048576000"
    by (simp add: big_bucket_sample sum_list_replicate old_object_def fresh_object_def)
  have len: "length (take 1000 big_bucket) = 1000"
    by (simp add: big_bucket_def)
  show ?thesis
    by (simp add: optimize_s3_storage_def optimize_s3_storage_try_def lifecycle_configuration_def
        big_bucket_account_def [unfolded quiet_account_def] storage_usage_eq big_bucket_old sz
        len finding_set_ops show_simps del: length_take)
qed

section \<open>Properties of the handler of the cost optimizer\<close>

lemma cost_optimizer_try_Inr:
  "cost_optimizer_try a ctx = Inr r \<Longrightarrow>
   \<exists>p e b. optimizations r =
     [check_instance_utilization a a p e, check_asg_efficiency a a p e,
      optimize_s3_storage a b, check_tagging_compliance a a p e,
      identify_cost_anomalies a p e]"
  by (fastforce simp: cost_optimizer_try_def Let_def split: sum.splits option.splits)

text \<open>
  Claim C10. Whenever the handler of the cost optimizer answers with status code 200,
  the body is the report whose list of optimizations holds exactly five finding sets, of
  the categories EC2 Instance Utilization, Auto Scaling Group Efficiency, S3 Storage
  Optimization, Tagging Compliance and Cost Anomaly Detection in this order, whether or
  not a check failed inside; and the potential savings of each are not negative.
\<close>

theorem five_finding_sets:
  "statusCode (cost_optimizer_handler a ctx) = 200 \<longrightarrow>
   (\<exists>r. cost_optimizer_try a ctx = Inr r \<and>
        body (cost_optimizer_handler a ctx) = report_json r \<and>
        map category (optimizations r) =
          [''EC2 Instance Utilization'', ''Auto Scaling Group Efficiency'',
           ''S3 Storage Optimization'', ''Tagging Compliance'', ''Cost Anomaly Detection''] \<and>
        (\<forall>opt\<in>set (optimizations r). 0 \<le> potential_savings opt))"
proof
  assume ok: "statusCode (cost_optimizer_handler a ctx) = 200"
  then obtain r where r: "cost_optimizer_try a ctx = Inr r"
    by (cases "cost_optimizer_try a ctx") (simp_all add: cost_optimizer_handler_def)
  from cost_optimizer_try_Inr [OF r] obtain p e b where
    opts: "optimizations r =
     [check_instance_utilization a a p e, check_asg_efficiency a a p e,
      optimize_s3_storage a b, check_tagging_compliance a a p e,
      identify_cost_anomalies a p e]" by blast
  have "body (cost_optimizer_handler a ctx) = report_json r"
    using r by (simp add: cost_optimizer_handler_def)
  moreover have "map category (optimizations r) =
          [''EC2 Instance Utilization'', ''Auto Scaling Group Efficiency'',
           ''S3 Storage Optimization'', ''Tagging Compliance'', ''Cost Anomaly Detection'']"
    unfolding opts by (simp add: check_category)
  moreover have "\<forall>opt\<in>set (optimizations r). 0 \<le> potential_savings opt"
    unfolding opts by (simp add: check_savings)
  ultimately show "\<exists>r. cost_optimizer_try a ctx = Inr r \<and>
        body (cost_optimizer_handler a ctx) = report_json r \<and>
        map category (optimizations r) =
          [''EC2 Instance Utilization'', ''Auto Scaling Group Efficiency'',
           ''S3 Storage Optimization'', ''Tagging Compliance'', ''Cost Anomaly Detection''] \<and>
        (\<forall>opt\<in>set (optimizations r). 0 \<le> potential_savings opt)"
    using r by (intro exI [of _ r]) simp
qed


theorem five_finding_sets_witness:
  "statusCode (cost_optimizer_handler denied_account shop_context) = 200 \<and>
   (\<exists>r. cost_optimizer_try denied_account shop_context = Inr r \<and>
        body (cost_optimizer_handler denied_account shop_context) = report_json r \<and>
        map category (optimizations r) =
          [''EC2 Instance Utilization'', ''Auto Scaling Group Efficiency'',
           ''S3 Storage Optimization'', ''Tagging Compliance'', ''Cost Anomaly Detection''] \<and>
        (\<forall>opt\<in>set (optimizations r). 0 \<le> potential_savings opt))"
proof -
  have h: "statusCode (cost_optimizer_handler denied_account shop_context) = 200"
    by (simp add: cost_optimizer_handler_def cost_optimizer_try_def shop_context_def
        subscript_def denied_account_def quiet_account_def Let_def)
  with five_finding_sets [of denied_account shop_context] show ?thesis by simp
qed

section \<open>Properties of the two handlers\<close>

text \<open>
  Where the \<open>except\<close> blocks work: the cost optimizer turns every exception of its \<open>try\<close>
  block into the 500 response, and so does the workspace manager once \<open>workspace\<close> has
  been assigned, that is, for every exception but the one raised by reading
  \<open>context.environment\<close>.
\<close>

lemma cost_optimizer_handler_failure:
  "cost_optimizer_try a ctx = Inl x \<Longrightarrow>
   cost_optimizer_handler a ctx =
     \<lparr>statusCode = 500, body = JObj [(''error'', JStr (str_exn x))]\<rparr>"
  by (simp add: cost_optimizer_handler_def)

lemma cost_optimizer_handler_cases:
  "(\<exists>r. cost_optimizer_handler a ctx = \<lparr>statusCode = 200, body = report_json r\<rparr>) \<or>
   (\<exists>x. cost_optimizer_handler a ctx =
      \<lparr>statusCode = 500, body = JObj [(''error'', JStr (str_exn x))]\<rparr>)"
  by (cases "cost_optimizer_try a ctx") (auto simp: cost_optimizer_handler_def)

lemma workspace_manager_handler_failure:
  "workspace_manager_try a ctx = Inl (x, Some w) \<Longrightarrow>
   workspace_manager_handler a ctx =
     Inr \<lparr>statusCode = 500,
          body = JObj [(''error'', JStr (str_exn x)), (''workspace'', JStr w),
                       (''timestamp'', JStr (now_isoformat a))]\<rparr>"
  by (simp add: workspace_manager_handler_def)

lemma workspace_manager_try_unbound:
  "workspace_manager_try a ctx = Inl (x, None) \<longleftrightarrow> context_environment ctx = Inl x"
  by (auto simp: workspace_manager_try_def Let_def split: sum.splits option.splits)

text \<open>
  Claim C6, at the input where it fails. The claim: whatever exception leaves the main
  pipeline of either handler, the handler returns the response with status code 500
  whose body holds the error string (and, for the workspace manager, the workspace and
  a timestamp), also when the exception occurs before the identity values were read.
  For a context object without the attribute \<open>environment\<close> the first statement of the
  \<open>try\<close> block raises; the cost optimizer answers with the 500 response, but the
  workspace manager's \<open>except\<close> block reads the variable \<open>workspace\<close>, which was never
  assigned, and the handler itself raises \<open>UnboundLocalError\<close>.
\<close>

theorem workspace_handler_unbound_workspace:
  "workspace_manager_handler a bare_context = Inl (UnboundLocalError ''workspace'') \<and>
   cost_optimizer_handler a' bare_context =
     \<lparr>statusCode = 500, body = JObj [(''error'', JStr ''no attribute environment'')]\<rparr>"
  by (simp add: workspace_manager_handler_def workspace_manager_try_def
      cost_optimizer_handler_def cost_optimizer_try_def bare_context_def)

text \<open>
  Claim C7 fails for the cost optimizer: it reads its variables with \<open>d[k]\<close>, so with an
  environment that lacks \<open>PROJECT_NAME\<close> the invocation ends with the 500 response whose
  error is the missing key, and nothing is replaced by \<open>unknown\<close>.
\<close>

theorem cost_optimizer_no_fallback:
  "cost_optimizer_handler quiet_account empty_context =
     \<lparr>statusCode = 500,
      body = JObj [(''error'', JStr (CHR 0x27 # ''PROJECT_NAME'' @ [CHR 0x27]))]\<rparr>"
  by (simp add: cost_optimizer_handler_def cost_optimizer_try_def empty_context_def
      subscript_def)

lemma workspace_manager_try_Inr:
  assumes "context_environment ctx = Inr env"
    and "clients a [''ec2'', ''autoscaling'', ''s3'', ''ssm'', ''cloudwatch''] = None"
    and "context_function_name ctx = Inr f"
  shows "\<exists>info. workspace_manager_try a ctx = Inr info \<and>
           ws_workspace info = get_or env ''WORKSPACE'' ''unknown'' \<and>
           ws_environment info = get_or env ''ENVIRONMENT'' ''unknown'' \<and>
           ws_project_name info = get_or env ''PROJECT_NAME'' ''unknown''"
  using assms by (simp add: workspace_manager_try_def Let_def)


text \<open>
  Claim C7, amended. The workspace manager reads the workspace, the environment and
  the project name with \<open>d.get(k, 'unknown')\<close>: when the context has an environment, the
  clients can be created and the function name can be read, the handler answers with
  status code 200 and the document carries, for each identity value, the value of the
  environment or the literal \<open>unknown\<close> when it is absent. The cost optimizer has no
  fallback: when \<open>PROJECT_NAME\<close> is absent, or it is present and \<open>ENVIRONMENT\<close> is absent,
  its handler answers with status code 500 and the error string of the \<open>KeyError\<close> for
  that key.
\<close>

theorem identity_fallback:
  "(context_environment ctx = Inr env \<and>
    clients a [''ec2'', ''autoscaling'', ''s3'', ''ssm'', ''cloudwatch''] = None \<and>
    context_function_name ctx = Inr f \<longrightarrow>
      (\<exists>info. workspace_manager_handler a ctx
                 = Inr \<lparr>statusCode = 200, body = workspace_info_json info\<rparr> \<and>
              ws_workspace info = (case env ''WORKSPACE'' of None \<Rightarrow> ''unknown'' | Some v \<Rightarrow> v) \<and>
              ws_environment info = (case env ''ENVIRONMENT'' of None \<Rightarrow> ''unknown'' | Some v \<Rightarrow> v) \<and>
              ws_project_name info
                 = (case env ''PROJECT_NAME'' of None \<Rightarrow> ''unknown'' | Some v \<Rightarrow> v))) \<and>
   (context_environment ctx = Inr env \<and> env ''PROJECT_NAME'' = None \<longrightarrow>
      cost_optimizer_handler a' ctx =
        \<lparr>statusCode = 500,
         body = JObj [(''error'', JStr (str_exn (KeyError ''PROJECT_NAME'')))]\<rparr>) \<and>
   (context_environment ctx = Inr env \<and> env ''PROJECT_NAME'' \<noteq> None \<and>
    env ''ENVIRONMENT'' = None \<longrightarrow>
      cost_optimizer_handler a' ctx =
        \<lparr>statusCode = 500,
         body = JObj [(''error'', JStr (str_exn (KeyError ''ENVIRONMENT'')))]\<rparr>)"
proof (intro conjI impI)
  assume h: "context_environment ctx = Inr env \<and>
    clients a [''ec2'', ''autoscaling'', ''s3'', ''ssm'', ''cloudwatch''] = None \<and>
    context_function_name ctx = Inr f"
  then obtain info where i: "workspace_manager_try a ctx = Inr info"
      "ws_workspace info = get_or env ''WORKSPACE'' ''unknown''"
      "ws_environment info = get_or env ''ENVIRONMENT'' ''unknown''"
      "ws_project_name info = get_or env ''PROJECT_NAME'' ''unknown''"
    using workspace_manager_try_Inr [of ctx env a f] by blast
  show "\<exists>info. workspace_manager_handler a ctx
                 = Inr \<lparr>statusCode = 200, body = workspace_info_json info\<rparr> \<and>
              ws_workspace info = (case env ''WORKSPACE'' of None \<Rightarrow> ''unknown'' | Some v \<Rightarrow> v) \<and>
              ws_environment info = (case env ''ENVIRONMENT'' of None \<Rightarrow> ''unknown'' | Some v \<Rightarrow> v) \<and>
              ws_project_name info
                 = (case env ''PROJECT_NAME'' of None \<Rightarrow> ''unknown'' | Some v \<Rightarrow> v)"
    using i by (intro exI [of _ info]) (simp add: workspace_manager_handler_def get_or_def)
next
  assume "context_environment ctx = Inr env \<and> env ''PROJECT_NAME'' = None"
  then show "cost_optimizer_handler a' ctx =
        \<lparr>statusCode = 500,
         body = JObj [(''error'', JStr (str_exn (KeyError ''PROJECT_NAME'')))]\<rparr>"
    by (simp add: cost_optimizer_handler_def cost_optimizer_try_def subscript_def)
next
  assume "context_environment ctx = Inr env \<and> env ''PROJECT_NAME'' \<noteq> None \<and>
    env ''ENVIRONMENT'' = None"
  then show "cost_optimizer_handler a' ctx =
        \<lparr>statusCode = 500,
         body = JObj [(''error'', JStr (str_exn (KeyError ''ENVIRONMENT'')))]\<rparr>"
    by (auto simp: cost_optimizer_handler_def cost_optimizer_try_def subscript_def)
qed

theorem identity_fallback_witness:
  "(\<exists>info. workspace_manager_handler quiet_workspace_account empty_context
             = Inr \<lparr>statusCode = 200, body = workspace_info_json info\<rparr> \<and>
           ws_workspace info = ''unknown'' \<and> ws_environment info = ''unknown'' \<and>
           ws_project_name info = ''unknown'') \<and>
   cost_optimizer_handler quiet_account empty_context =
     \<lparr>statusCode = 500,
      body = JObj [(''error'', JStr (CHR 0x27 # ''PROJECT_NAME'' @ [CHR 0x27]))]\<rparr> \<and>
   cost_optimizer_handler quiet_account
       (empty_context\<lparr>context_environment := Inr (map_of [(''PROJECT_NAME'', ''shop'')])\<rparr>) =
     \<lparr>statusCode = 500,
      body = JObj [(''error'', JStr (CHR 0x27 # ''ENVIRONMENT'' @ [CHR 0x27]))]\<rparr>"
proof -
  have c: "clients quiet_workspace_account [''ec2'', ''autoscaling'', ''s3'', ''ssm'', ''cloudwatch'']
      = None"
    by (simp add: quiet_workspace_account_def)
  show ?thesis
    using identity_fallback [of empty_context Map.empty quiet_workspace_account
        "''workspace-manager''" quiet_account]
      identity_fallback [of
        "empty_context\<lparr>context_environment := Inr (map_of [(''PROJECT_NAME'', ''shop'')])\<rparr>"
        "map_of [(''PROJECT_NAME'', ''shop'')]" quiet_workspace_account
        "''workspace-manager''" quiet_account]
      c
    by (simp add: empty_context_def)
qed

text \<open>The whole answer of the workspace manager for the empty account and environment.\<close>

lemma quiet_workspace_run:
  "workspace_manager_handler quiet_workspace_account empty_context =
     Inr \<lparr>statusCode = 200,
          body = JObj
            [(''workspace'', JStr ''unknown''),
             (''environment'', JStr ''unknown''),
             (''project_name'', JStr ''unknown''),
             (''timestamp'', JStr ''2024-05-01T12:00:00+00:00''),
             (''function_name'', JStr ''workspace-manager''),
             (''resources'', JObj
                [(''autoscaling'', JObj
                    [(''auto_scaling_groups'', JList []), (''total_instances'', JInt 0),
                     (''healthy_instances'', JInt 0)]),
                 (''ssm'', JObj
                    [(''parameters'', JList []), (''workspace_config_exists'', JBool False)])]),
             (''health_checks'', JObj
                [(''autoscaling'', JObj
                    [(''status'', JStr ''unhealthy''),
                     (''issues'', JList [JStr ''No Auto Scaling Groups found for this workspace'']),
                     (''warnings'', JList [])])]),
             (''recommendations'', JList [])]\<rparr>"
  by (simp add: workspace_manager_handler_def workspace_manager_try_def empty_context_def
      quiet_workspace_account_def get_or_def Let_def
      check_workspace_asgs_def validate_asg_health_def new_health_def
      check_ssm_parameters_def workspace_config_def generate_recommendations_def
      vpc_recommendations_def asg_recommendations_def s3_recommendations_def dev_or_test_def
      workspace_info_json_def resources_json_def health_checks_json_def opt_key_def
      asg_info_json_def ssm_info_json_def health_json_def)

section \<open>Further runs\<close>

text \<open>A check whose first client call raises returns the error finding and nothing else.\<close>

lemma first_call_raises:
  "describe_instances ec2 (utilization_filters p e) = Inl x \<Longrightarrow>
   check_instance_utilization ec2 cw p e =
     \<lparr>category = ''EC2 Instance Utilization'',
      findings = [''Error checking instance utilization: '' @ str_exn x],
      recommendations = [], potential_savings = 0\<rparr>"
  "describe_auto_scaling_groups asg = Inl x \<Longrightarrow>
   check_asg_efficiency asg cw p e =
     \<lparr>category = ''Auto Scaling Group Efficiency'',
      findings = [''Error checking ASG efficiency: '' @ str_exn x],
      recommendations = [], potential_savings = 0\<rparr>"
  "describe_instances ec2 [] = Inl x \<Longrightarrow>
   check_tagging_compliance ec2 s3 p e =
     \<lparr>category = ''Tagging Compliance'',
      findings = [''Error checking tagging compliance: '' @ str_exn x],
      recommendations = [], potential_savings = 0\<rparr>"
  by (simp_all add: check_instance_utilization_def check_instance_utilization_try_def
      check_asg_efficiency_def check_asg_efficiency_try_def check_tagging_compliance_def
      check_tagging_compliance_try_def finding_set_ops)

text \<open>
  The cost optimizer on the empty account: status 200, five finding sets and no savings.
\<close>

lemma quiet_account_report:
  "cost_optimizer_handler quiet_account shop_context =
     \<lparr>statusCode = 200,
      body = JObj
        [(''timestamp'', JStr ''2024-05-01T12:00:00''),
         (''project'', JStr ''shop''),
         (''environment'', JStr ''dev''),
         (''optimizations'', JList
            [JObj [(''category'', JStr ''EC2 Instance Utilization''),
                   (''findings'', JList [JStr ''All instances have appropriate utilization levels'']),
                   (''recommendations'', JList []),
                   (''potential_savings'', JInt 0)],
             JObj [(''category'', JStr ''Auto Scaling Group Efficiency''),
                   (''findings'', JList []),
                   (''recommendations'', JList []),
                   (''potential_savings'', JInt 0)],
             JObj [(''category'', JStr ''S3 Storage Optimization''),
                   (''findings'', JList [JStr ''Bucket assets has 0 lifecycle rules'']),
                   (''recommendations'', JList []),
                   (''potential_savings'', JInt 0)],
             JObj [(''category'', JStr ''Tagging Compliance''),
                   (''findings'', JList [JStr ''All resources have proper cost allocation tags'']),
                   (''recommendations'', JList []),
                   (''potential_savings'', JInt 0)],
             JObj [(''category'', JStr ''Cost Anomaly Detection''),
                   (''findings'', JList [JStr ''Simulated cost analysis complete'']),
                   (''recommendations'', JList
                      [JStr ''Review AWS Cost Explorer for detailed cost breakdown'',
                       JStr ''Set up AWS Budgets for proactive cost monitoring'',
                       JStr ''Consider Reserved Instances for predictable workloads'']),
                   (''potential_savings'', JInt 0)]])]\<rparr>"
  by (simp add: cost_optimizer_handler_def cost_optimizer_try_def shop_context_def
      subscript_def quiet_account_def Let_def report_json_def finding_set_json_def
      check_instance_utilization_def check_instance_utilization_try_def
      check_asg_efficiency_def check_asg_efficiency_try_def optimize_s3_storage_def
      optimize_s3_storage_try_def lifecycle_configuration_def check_tagging_compliance_def
      check_tagging_compliance_try_def untagged_of_reservations_def
      identify_cost_anomalies_eq finding_set_ops str_nat.simps digit_def)

end
